theory Spec2Isabelle
  imports Main "HOL-Library.AList"
begin

section \<open>JSON values and Moray records\<close>

text \<open>
  The store client (lib/marlin.js) and the lackey (lib/agent/lackey.js) handle plain
  JSON objects.  A JSON value is a scalar, an array or an object; an object is an
  association list in property order.  Reading a property that is absent gives
  \<open>None\<close> (JavaScript's \<open>undefined\<close>).
\<close>

datatype jsval =
    JStr string
  | JNum int
  | JBool bool
  | JNull
  | JArr "jsval list"
  | JObj "(string \<times> jsval) list"

type_synonym jsobj = "(string \<times> jsval) list"

text \<open>\<open>obj[k]\<close>: the property, or undefined.\<close>

definition prop_of :: "jsobj \<Rightarrow> string \<Rightarrow> jsval option" where
  "prop_of obj k = map_of obj k"

text \<open>\<open>obj.hasOwnProperty(k)\<close>.\<close>

definition hasOwnProperty :: "jsobj \<Rightarrow> string \<Rightarrow> bool" where
  "hasOwnProperty obj k = (map_of obj k \<noteq> None)"

text \<open>JavaScript truthiness of a property read, as \<open>if (job['input'])\<close> tests it.\<close>

fun truthy :: "jsval option \<Rightarrow> bool" where
  "truthy None = False"
| "truthy (Some (JStr s)) = (s \<noteq> [])"
| "truthy (Some (JNum n)) = (n \<noteq> 0)"
| "truthy (Some (JBool b)) = b"
| "truthy (Some JNull) = False"
| "truthy (Some (JArr xs)) = True"
| "truthy (Some (JObj fs)) = True"

text \<open>\<open>obj[k] = v\<close>: replaces the property in place, or appends it.\<close>

definition assign :: "string \<Rightarrow> jsval \<Rightarrow> jsobj \<Rightarrow> jsobj" where
  "assign k v obj = AList.update k v obj"

text \<open>
  \<open>obj[k] = e\<close> where \<open>e\<close> may be undefined.  The object is only ever
  observed through \<open>putObject\<close>, which serialises it as JSON and so drops a
  property whose value is undefined.
\<close>

definition assign_opt :: "string \<Rightarrow> jsval option \<Rightarrow> jsobj \<Rightarrow> jsobj" where
  "assign_opt k e obj = (case e of None \<Rightarrow> AList.delete k obj | Some v \<Rightarrow> assign k v obj)"

text \<open>
  \<open>mod_jsprim.deepCopy\<close>: rebuilds arrays and objects element by element and
  returns scalars as they are.
\<close>

primrec deepCopy :: "jsval \<Rightarrow> jsval" where
  "deepCopy (JStr s) = JStr s"
| "deepCopy (JNum n) = JNum n"
| "deepCopy (JBool b) = JBool b"
| "deepCopy JNull = JNull"
| "deepCopy (JArr xs) = JArr (map deepCopy xs)"
| "deepCopy (JObj fs) = JObj (map (map_prod id deepCopy) fs)"

definition deepCopyObj :: "jsobj \<Rightarrow> jsobj" where
  "deepCopyObj fs = map (map_prod id deepCopy) fs"

text \<open>
  A record as Moray returns it: bucket, key, value, the etag of this version, and the
  store's own \<open>_id\<close> and \<open>_mtime\<close> (milliseconds).
\<close>

record mrec =
  rec_bucket :: string
  rec_key :: string
  rec_value :: jsobj
  rec_etag :: string
  rec_id :: nat
  rec_mtime :: int

text \<open>
  Errors: one reported by the Moray client, or a \<open>VError\<close> built here with an
  optional cause, its message format and the format's arguments.
\<close>

datatype verror =
    MorayError string
  | VError "verror option" string "jsval option list"

text \<open>Bucket names, \<open>api.ma_buckets\<close>.\<close>

record buckets =
  bk_job :: string
  bk_jobinput :: string
  bk_task :: string
  bk_taskinput :: string
  bk_taskoutput :: string
  bk_error :: string

text \<open>The requests the client sends to Moray, in the order it sends them.\<close>

datatype moray_req =
    GetObject string string bool
  | PutObject string string jsobj "string option"
  | DeleteObject string string
  | BatchDeleteMany "string list" string nat nat
  | FindObjects string string "nat option" string

section \<open>Read-modify-write of a job record\<close>

text \<open>
  An update function mutates the copy it is given and returns an \<open>Error\<close>, or
  something that is not one (\<open>null\<close>, \<open>undefined\<close>).
\<close>

type_synonym updatef = "jsobj \<Rightarrow> verror option \<times> jsobj"

text \<open>
  \<open>jobFetchAndUpdateTry\<close>.  The two replies of the store are arguments: what
  \<open>getObject\<close> calls back with, and what \<open>putObject\<close> calls back with
  should it be sent.  The result is the requests sent and the arguments of the caller's
  callback (an error, or the record as it was fetched).
\<close>

definition jobFetchAndUpdateTry ::
  "buckets \<Rightarrow> string \<Rightarrow> updatef \<Rightarrow> verror + mrec \<Rightarrow> verror option
    \<Rightarrow> moray_req list \<times> (verror + mrec)" where
  "jobFetchAndUpdateTry api jobid updatef getR putR =
    (let bucket = bk_job api; fetch = GetObject bucket jobid True in
     case getR of
       Inl err \<Rightarrow> ([fetch], Inl (VError (Some err) ''failed to fetch job'' []))
     | Inr job \<Rightarrow>
        (let newval = deepCopyObj (rec_value job);
             (uerr, newval') = updatef newval in
         case uerr of
           Some e \<Rightarrow> ([fetch], Inl e)
         | None \<Rightarrow>
            ([fetch, PutObject bucket jobid newval' (Some (rec_etag job))],
             case putR of
               Some suberr \<Rightarrow> Inl (VError (Some suberr) ''failed to update job'' [])
             | None \<Rightarrow> Inr job)))"

text \<open>
  \<open>jobFetchAndUpdate\<close>: one attempt when \<open>options.retry\<close> is absent.  With a
  retry policy (\<open>Some n\<close>: up to \<open>n\<close> retries) every failed attempt, whatever
  its error, is tried again until the retries are used up.  The update function is a
  closure that may read the clock, so it is given the number of the attempt that calls
  it (from 0).  Each attempt has its own pair of store replies; when the replies run out
  the fetch of the attempt has been sent and the store has not answered it, so the
  caller's callback has not run: the result is \<open>None\<close>.
\<close>

fun jobFetchAndUpdateRetry ::
  "buckets \<Rightarrow> string \<Rightarrow> (nat \<Rightarrow> updatef) \<Rightarrow> nat \<Rightarrow> nat
    \<Rightarrow> ((verror + mrec) \<times> verror option) list
    \<Rightarrow> moray_req list \<times> (verror + mrec) option" where
  "jobFetchAndUpdateRetry api jobid updatef n i [] =
    ([GetObject (bk_job api) jobid True], None)"
| "jobFetchAndUpdateRetry api jobid updatef n i ((getR, putR) # rs) =
    (case jobFetchAndUpdateTry api jobid (updatef i) getR putR of
       (reqs, Inr job) \<Rightarrow> (reqs, Some (Inr job))
     | (reqs, Inl err) \<Rightarrow>
        (case n of
           0 \<Rightarrow> (reqs, Some (Inl err))
         | Suc m \<Rightarrow>
            (let (reqs', res) = jobFetchAndUpdateRetry api jobid updatef m (Suc i) rs
             in (reqs @ reqs', res))))"

definition jobFetchAndUpdate ::
  "buckets \<Rightarrow> string \<Rightarrow> nat option \<Rightarrow> (nat \<Rightarrow> updatef)
    \<Rightarrow> ((verror + mrec) \<times> verror option) list
    \<Rightarrow> moray_req list \<times> (verror + mrec) option" where
  "jobFetchAndUpdate api jobid retry updatef replies =
    (case retry of
       None \<Rightarrow>
        (case replies of
           [] \<Rightarrow> ([GetObject (bk_job api) jobid True], None)
         | (getR, putR) # _ \<Rightarrow>
            (let (reqs, res) = jobFetchAndUpdateTry api jobid (updatef 0) getR putR
             in (reqs, Some res)))
     | Some n \<Rightarrow> jobFetchAndUpdateRetry api jobid updatef n 0 replies)"

text \<open>
  The update functions of the job operations.  \<open>now\<close> is
  \<open>mod_jsprim.iso8601(Date.now())\<close> as the call of the update function reads it;
  \<open>clock i\<close> is that reading in attempt \<open>i\<close>.
\<close>

definition jobCancel_update :: "string \<Rightarrow> updatef" where
  "jobCancel_update now job = (None, assign ''timeCancelled'' (JStr now) job)"

definition jobEndInput_update :: "string \<Rightarrow> updatef" where
  "jobEndInput_update now job =
    (if truthy (prop_of job ''input'')
     then (Some (VError None ''job \"%s\" input is piped from %s''
                   [prop_of job ''jobId'', prop_of job ''input'']), job)
     else (None, assign ''timeInputDone'' (JStr now) job))"

definition jobArchiveStart_update :: "string \<Rightarrow> jsval option \<Rightarrow> updatef" where
  "jobArchiveStart_update now wrasse job =
    (None, assign_opt ''wrasse'' wrasse (assign ''timeArchiveStarted'' (JStr now) job))"

definition jobArchiveDone_update :: "string \<Rightarrow> updatef" where
  "jobArchiveDone_update now job = (None, assign ''timeArchiveDone'' (JStr now) job)"

definition jobArchiveHeartbeat_update :: updatef where
  "jobArchiveHeartbeat_update job = (None, job)"

definition jobCancel where
  "jobCancel api jobid retry clock =
    jobFetchAndUpdate api jobid retry (\<lambda>i. jobCancel_update (clock i))"

definition jobEndInput where
  "jobEndInput api jobid retry clock =
    jobFetchAndUpdate api jobid retry (\<lambda>i. jobEndInput_update (clock i))"

definition jobArchiveStart where
  "jobArchiveStart api jobid retry clock wrasse =
    jobFetchAndUpdate api jobid retry (\<lambda>i. jobArchiveStart_update (clock i) wrasse)"

definition jobArchiveDone where
  "jobArchiveDone api jobid retry clock =
    jobFetchAndUpdate api jobid retry (\<lambda>i. jobArchiveDone_update (clock i))"

definition jobArchiveHeartbeat where
  "jobArchiveHeartbeat api jobid retry =
    jobFetchAndUpdate api jobid retry (\<lambda>i. jobArchiveHeartbeat_update)"

subsection \<open>Creating a job\<close>

text \<open>
  The configuration \<open>jobCreate\<close> is called with, typed as its assertions and its
  documentation ask: \<open>phases\<close> an array, \<open>owner\<close> and \<open>authToken\<close>
  strings, \<open>auth\<close> an object whose \<open>groups\<close> is a list of names.
\<close>

record job_conf =
  jc_phases :: "jsval list"
  jc_jobId :: "string option"
  jc_name :: "string option"
  jc_owner :: string
  jc_input :: "jsval option"
  jc_authToken :: string
  jc_auth :: jsobj
  jc_groups :: "string list"
  jc_options :: "jsobj option"

datatype thrown = AssertionFailed

text \<open>\<open>s || d\<close> for an optional string.\<close>

definition str_or :: "string option \<Rightarrow> string \<Rightarrow> string" where
  "str_or s d = (case s of None \<Rightarrow> d | Some x \<Rightarrow> if x = [] then d else x)"

text \<open>
  \<open>jobCreate\<close>: non-empty \<open>options\<close> are for operators only (an assertion);
  the record is built, with \<open>input\<close> only when the configuration has one that
  JavaScript takes as true, and written under the job's id.  The result is the failed
  assertion, or the request sent and the arguments of the callback.
\<close>

definition jobCreate_value :: "job_conf \<Rightarrow> string \<Rightarrow> string \<Rightarrow> jsobj" where
  "jobCreate_value conf key now =
    [(''jobId'', JStr key),
     (''name'', JStr (str_or (jc_name conf) '''')),
     (''auth'', JObj (jc_auth conf)),
     (''authToken'', JStr (jc_authToken conf)),
     (''owner'', JStr (jc_owner conf)),
     (''phases'', deepCopy (JArr (jc_phases conf))),
     (''state'', JStr ''queued''),
     (''timeCreated'', JStr now),
     (''options'', JObj (case jc_options conf of None \<Rightarrow> [] | Some os \<Rightarrow> os))]
    @ (case jc_input conf of
         None \<Rightarrow> []
       | Some v \<Rightarrow> if truthy (Some v) then [(''input'', v)] else [])"

definition jobCreate ::
  "buckets \<Rightarrow> job_conf \<Rightarrow> string \<Rightarrow> string \<Rightarrow> verror option
    \<Rightarrow> thrown + moray_req list \<times> (verror + string)" where
  "jobCreate api conf now uuid putR =
    (if (case jc_options conf of None \<Rightarrow> False | Some os \<Rightarrow> os \<noteq> [])
        \<and> ''operators'' \<notin> set (jc_groups conf)
     then Inl AssertionFailed
     else
       (let key = str_or (jc_jobId conf) uuid
        in Inr ([PutObject (bk_job api) key (jobCreate_value conf key now) None],
                case putR of
                  Some err \<Rightarrow> Inl (VError (Some err) ''failed to create job'' [])
                | None \<Rightarrow> Inr key)))"

definition input_wf :: "jsobj \<Rightarrow> bool" where
  "input_wf job = (hasOwnProperty job ''input'' \<longrightarrow> truthy (prop_of job ''input''))"

section \<open>Marking a task done\<close>

text \<open>
  \<open>x == 'done'\<close>, JavaScript's loose equality with the string \<open>'done'\<close>: a string
  is compared as it is; an array is first joined with commas, so only an array of one
  element that itself equals \<open>'done'\<close> does; a number, a boolean, \<open>null\<close>,
  \<open>undefined\<close> and an object never do.
\<close>

fun eq_done :: "jsval \<Rightarrow> bool" where
  "eq_done (JStr s) = (s = ''done'')"
| "eq_done (JArr [e]) = eq_done e"
| "eq_done _ = False"

definition state_is_done :: "jsobj \<Rightarrow> bool" where
  "state_is_done task = (case prop_of task ''state'' of None \<Rightarrow> False | Some v \<Rightarrow> eq_done v)"

text \<open>
  An object literal as \<open>putObject\<close> sees it: a property whose value is undefined
  is not serialised.
\<close>

definition literal :: "(string \<times> jsval option) list \<Rightarrow> jsobj" where
  "literal fs = concat (map (\<lambda>(k, e). case e of None \<Rightarrow> [] | Some v \<Rightarrow> [(k, v)]) fs)"

text \<open>\<open>e || undefined\<close>.\<close>

definition or_undefined :: "jsval option \<Rightarrow> jsval option" where
  "or_undefined e = (if truthy e then e else None)"

text \<open>First stage: fetch the task; a task whose state is already \<open>done\<close> is an error.\<close>

definition taskDoneFetch ::
  "buckets \<Rightarrow> string \<Rightarrow> verror + mrec \<Rightarrow> moray_req list \<times> (verror + mrec)" where
  "taskDoneFetch api taskid getR =
    ([GetObject (bk_task api) taskid False],
     case getR of
       Inl err \<Rightarrow> Inl err
     | Inr record \<Rightarrow>
        if state_is_done (rec_value record)
        then Inl (VError None ''task is already done'' [])
        else Inr record)"

text \<open>
  Second stage.  Without an output count, one error record is written.  With the count
  zero nothing is.  Otherwise the count's many task-output records go through a work
  queue of concurrency 10.  The queue is followed with the store answering the writes in
  the order they were sent: \<open>wq_dispatched\<close> counts the tasks handed to the
  worker, \<open>wq_puts\<close> the writes it sent, \<open>wq_done\<close> is the worker's
  \<open>done\<close> flag and \<open>wq_result\<close> the error the stage called back with.  A
  reply first frees its slot, on which the queue takes the next queued task and
  schedules the worker for it; then, if it is the first failure, it calls back with the
  error and sets \<open>done\<close>.  The scheduled worker runs after the reply's callback
  has returned: it sends a write unless \<open>done\<close> is set by then.  So no write
  is sent after the first failed one has been answered.
\<close>

record wq =
  wq_dispatched :: nat
  wq_puts :: nat
  wq_done :: bool
  wq_result :: "verror option"

definition taskoutput_reply :: "nat \<Rightarrow> (nat \<Rightarrow> verror option) \<Rightarrow> nat \<Rightarrow> wq \<Rightarrow> wq" where
  "taskoutput_reply nout othersR i q =
    (if i < wq_puts q then
       (let scheduled = (wq_dispatched q < nout);
            q1 = (if scheduled then q\<lparr>wq_dispatched := wq_dispatched q + 1\<rparr> else q);
            q2 = (case othersR i of
                    None \<Rightarrow> q1
                  | Some err \<Rightarrow>
                     if wq_done q1 then q1
                     else q1\<lparr>wq_result :=
                               Some (VError (Some err) ''failed to save taskoutput'' []),
                             wq_done := True\<rparr>)
        in if scheduled \<and> \<not> wq_done q2 then q2\<lparr>wq_puts := wq_puts q2 + 1\<rparr> else q2)
     else q)"

definition taskoutput_queue :: "nat \<Rightarrow> (nat \<Rightarrow> verror option) \<Rightarrow> wq" where
  "taskoutput_queue nout othersR =
    fold (taskoutput_reply nout othersR) [0..<nout]
      \<lparr>wq_dispatched = min nout 10, wq_puts = min nout 10, wq_done = False, wq_result = None\<rparr>"

definition taskDoneWriteOthers ::
  "buckets \<Rightarrow> mrec \<Rightarrow> nat option \<Rightarrow> jsval option \<Rightarrow> jsval option \<Rightarrow> string \<Rightarrow> (nat \<Rightarrow> string)
    \<Rightarrow> (nat \<Rightarrow> verror option) \<Rightarrow> moray_req list \<times> verror option" where
  "taskDoneWriteOthers api record nout ecode emessage now uuids othersR =
    (let task = rec_value record in
     case nout of
       None \<Rightarrow>
        ([PutObject (bk_error api) (uuids 0)
            (literal
              [(''errorId'', Some (JStr (uuids 0))),
               (''jobId'', prop_of task ''jobId''),
               (''phaseNum'', prop_of task ''phaseNum''),
               (''errorCode'', ecode),
               (''errorMessage'', emessage),
               (''input'', or_undefined (prop_of task ''input'')),
               (''p0input'', or_undefined (prop_of task ''p0input'')),
               (''taskId'', prop_of task ''taskId''),
               (''server'', prop_of task ''mantaComputeId''),
               (''machine'', prop_of task ''machine''),
               (''prevRecordType'', Some (JStr ''task'')),
               (''prevRecordId'', prop_of task ''taskId'')])
            None],
         case othersR 0 of
           None \<Rightarrow> None
         | Some err \<Rightarrow> Some (VError (Some err) ''failed to save error'' []))
     | Some 0 \<Rightarrow> ([], None)
     | Some (Suc n) \<Rightarrow>
        (let q = taskoutput_queue (Suc n) othersR in
         (map (\<lambda>i. PutObject (bk_taskoutput api) (uuids i)
                 (literal
                   [(''jobId'', prop_of task ''jobId''),
                    (''taskId'', prop_of task ''taskId''),
                    (''phaseNum'', prop_of task ''phaseNum''),
                    (''output'', Some (JStr ''/nobody/stor/nonexistent'')),
                    (''timeCreated'', Some (JStr now))])
                 None)
            [0..<wq_puts q],
          wq_result q)))"

text \<open>
  Third stage: the fetched value is marked done and written back under the etag of the
  fetch.  The store's answer is the stage's.
\<close>

definition taskDoneWriteTask_value :: "nat option \<Rightarrow> string \<Rightarrow> jsobj \<Rightarrow> jsobj" where
  "taskDoneWriteTask_value nout now task =
    (let t1 = assign ''state'' (JStr ''done'') task;
         t2 = assign ''timeDone'' (JStr now) t1;
         t3 = (if \<not> hasOwnProperty t2 ''machine''
               then assign ''machine'' (JStr ''mrjob_fake_machine'') t2 else t2);
         t4 = (if \<not> hasOwnProperty t3 ''timeAccepted''
               then assign ''timeAccepted'' (JStr now) t3 else t3);
         t5 = (if \<not> hasOwnProperty t4 ''timeStarted''
               then assign ''timeStarted'' (JStr now) t4 else t4)
     in case nout of
          Some n \<Rightarrow> assign ''nOutputs'' (JNum (int n)) (assign ''result'' (JStr ''ok'') t5)
        | None \<Rightarrow> assign ''result'' (JStr ''fail'') t5)"

definition taskDoneWriteTask ::
  "mrec \<Rightarrow> nat option \<Rightarrow> string \<Rightarrow> verror option \<Rightarrow> moray_req list \<times> verror option" where
  "taskDoneWriteTask record nout now taskR =
    ([PutObject (rec_bucket record) (rec_key record)
        (taskDoneWriteTask_value nout now (rec_value record)) (Some (rec_etag record))],
     taskR)"

text \<open>
  \<open>taskDone\<close>: the three stages as a \<open>vasync\<close> pipeline, which stops at the
  first stage that calls back with an error.  The second and the third stage each read
  the clock (\<open>now_out\<close>, \<open>now\<close>); \<open>uuids\<close> are the ids
  \<open>mod_uuid.v4()\<close> gives, in order.  The result is the requests sent and the error of
  the final callback, if any.
\<close>

definition taskDone ::
  "buckets \<Rightarrow> string \<Rightarrow> nat option \<Rightarrow> jsval option \<Rightarrow> jsval option \<Rightarrow> string \<Rightarrow> string
    \<Rightarrow> (nat \<Rightarrow> string) \<Rightarrow> verror + mrec \<Rightarrow> (nat \<Rightarrow> verror option) \<Rightarrow> verror option
    \<Rightarrow> moray_req list \<times> verror option" where
  "taskDone api taskid nout ecode emessage now_out now uuids getR othersR taskR =
    (case taskDoneFetch api taskid getR of
       (r1, Inl err) \<Rightarrow> (r1, Some err)
     | (r1, Inr record) \<Rightarrow>
        (case taskDoneWriteOthers api record nout ecode emessage now_out uuids othersR of
           (r2, Some err) \<Rightarrow> (r1 @ r2, Some err)
         | (r2, None) \<Rightarrow>
            (case taskDoneWriteTask record nout now taskR of
               (r3, res) \<Rightarrow> (r1 @ r2 @ r3, res))))"

section \<open>Cascading delete of a job\<close>

text \<open>
  \<open>jobDelete\<close> keeps two variables between callbacks: the requests of the next
  batch (all \<open>deleteMany\<close> with the same filter and limit, so a request is its
  bucket) and whether the caller's callback has been invoked.
\<close>

record jd =
  jd_requests :: "string list"
  jd_invoked :: bool

text \<open>What a callback of \<open>jobDelete\<close> does: a request to Moray, or the caller's callback.\<close>

datatype jd_out = Send moray_req | Callback "verror option"

text \<open>\<open>(options.options || {}).limit || 500\<close> and the same for the timeout.\<close>

definition jobDelete_limit :: "nat option \<Rightarrow> nat" where
  "jobDelete_limit l = (case l of None \<Rightarrow> 500 | Some n \<Rightarrow> if n = 0 then 500 else n)"

definition jobDelete_timeout :: "nat option \<Rightarrow> nat" where
  "jobDelete_timeout t = (case t of None \<Rightarrow> 300 * 1000 | Some n \<Rightarrow> if n = 0 then 300 * 1000 else n)"

definition jobDelete_filter :: "string \<Rightarrow> string" where
  "jobDelete_filter jobId = ''(jobId='' @ jobId @ '')''"

definition jobDeleteNextBatch :: "string \<Rightarrow> nat \<Rightarrow> nat \<Rightarrow> jd \<Rightarrow> jd_out" where
  "jobDeleteNextBatch jobId limit timeout st =
    Send (BatchDeleteMany (jd_requests st) (jobDelete_filter jobId) limit timeout)"

text \<open>
  The body of \<open>meta.etags.forEach\<close>: an entry \<open>(bucket, count)\<close> with a count
  under the limit removes the requests of that bucket; any other entry clears
  \<open>internals_done\<close>.
\<close>

definition jobDelete_entry :: "nat \<Rightarrow> string \<times> nat \<Rightarrow> string list \<times> bool \<Rightarrow> string list \<times> bool" where
  "jobDelete_entry limit m acc =
    (if snd m < limit
     then (filter (\<lambda>r. r \<noteq> fst m) (fst acc), snd acc)
     else (fst acc, False))"

text \<open>
  \<open>cb\<close>, the callback of a batch: it takes the error or the per-bucket counts the
  store answered with.
\<close>

definition jobDelete_cb ::
  "buckets \<Rightarrow> string \<Rightarrow> nat \<Rightarrow> nat \<Rightarrow> jd \<Rightarrow> verror + (string \<times> nat) list \<Rightarrow> jd \<times> jd_out list" where
  "jobDelete_cb api jobId limit timeout st reply =
    (if jd_invoked st then (st, [])
     else case reply of
       Inl err \<Rightarrow>
        (st\<lparr>jd_invoked := True\<rparr>,
         [Callback (Some (VError (Some err) ''failed to delete job'' []))])
     | Inr etags \<Rightarrow>
        (let (requests, internals_done) =
               fold (jobDelete_entry limit) etags (jd_requests st, True);
             st' = st\<lparr>jd_requests := requests\<rparr>
         in if \<not> internals_done
            then (st', [jobDeleteNextBatch jobId limit timeout st'])
            else (st', [Send (DeleteObject (bk_job api) jobId)])))"

text \<open>The callback of the final delete of the job record.\<close>

definition jobDelete_deleted :: "jd \<Rightarrow> verror option \<Rightarrow> jd \<times> jd_out list" where
  "jobDelete_deleted st err2 =
    (if jd_invoked st then (st, [])
     else (st\<lparr>jd_invoked := True\<rparr>,
           [Callback (case err2 of
                        Some e \<Rightarrow> Some (VError (Some e) ''failed to delete job'' [])
                      | None \<Rightarrow> None)]))"

text \<open>
  A whole run: the answers of the store to the successive batches, and its answer to
  the delete of the job record if it comes to that (\<open>None\<close>: no answer yet).  When
  the answers run out a request is outstanding and the run has got that far.
\<close>

fun jobDelete_run ::
  "buckets \<Rightarrow> string \<Rightarrow> nat \<Rightarrow> nat \<Rightarrow> jd \<Rightarrow> (verror + (string \<times> nat) list) list
    \<Rightarrow> verror option option \<Rightarrow> jd_out list" where
  "jobDelete_run api jobId limit timeout st [] dr = []"
| "jobDelete_run api jobId limit timeout st (reply # replies) dr =
    (case jobDelete_cb api jobId limit timeout st reply of
       (st', [Send (BatchDeleteMany bs f l t)]) \<Rightarrow>
          Send (BatchDeleteMany bs f l t) # jobDelete_run api jobId limit timeout st' replies dr
     | (st', [Send (DeleteObject b k)]) \<Rightarrow>
          Send (DeleteObject b k) #
          (case dr of None \<Rightarrow> [] | Some err2 \<Rightarrow> snd (jobDelete_deleted st' err2))
     | (st', out) \<Rightarrow> out)"

definition jobDelete ::
  "buckets \<Rightarrow> string \<Rightarrow> nat option \<Rightarrow> nat option \<Rightarrow> (verror + (string \<times> nat) list) list
    \<Rightarrow> verror option option \<Rightarrow> jd_out list" where
  "jobDelete api jobId limit_opt timeout_opt replies dr =
    (let limit = jobDelete_limit limit_opt;
         timeout = jobDelete_timeout timeout_opt;
         st = \<lparr>jd_requests = [bk_jobinput api, bk_error api, bk_task api, bk_taskinput api,
                              bk_taskoutput api],
               jd_invoked = False\<rparr>
     in jobDeleteNextBatch jobId limit timeout st #
        jobDelete_run api jobId limit timeout st replies dr)"

text \<open>
  The run from a state whose batch is sent now: \<open>jobDeleteNextBatch\<close>, then the
  callbacks as the answers come.  \<open>jobDelete\<close> is this from its first state.
\<close>

definition jobDelete_from ::
  "buckets \<Rightarrow> string \<Rightarrow> nat \<Rightarrow> nat \<Rightarrow> jd \<Rightarrow> (verror + (string \<times> nat) list) list
    \<Rightarrow> verror option option \<Rightarrow> jd_out list" where
  "jobDelete_from api jobId limit timeout st replies dr =
    jobDeleteNextBatch jobId limit timeout st # jobDelete_run api jobId limit timeout st replies dr"

text \<open>
  What the store is taken to answer a batch of \<open>deleteMany\<close> requests with (Moray is
  a service of its own): one entry for each request of the batch, with its
  bucket and the number of records deleted there, which is never more than the limit
  asked for.  \<open>store_contract\<close> asks this of every answer of a run, each against
  the batch it answers: the \<open>i\<close>-th answer is to the \<open>i\<close>-th request sent.
\<close>

definition answers_requested :: "jd_out \<Rightarrow> verror + (string \<times> nat) list \<Rightarrow> bool" where
  "answers_requested out reply =
    (case out of
       Send (BatchDeleteMany bs f l t) \<Rightarrow>
         (case reply of
            Inr etags \<Rightarrow>
              distinct (map fst etags) \<and> set (map fst etags) = set bs
              \<and> list_all (\<lambda>m. snd m \<le> l) etags
          | Inl err \<Rightarrow> True)
     | _ \<Rightarrow> True)"

definition store_contract :: "jd_out list \<Rightarrow> (verror + (string \<times> nat) list) list \<Rightarrow> bool" where
  "store_contract trace replies =
    list_all (\<lambda>p. answers_requested (fst p) (snd p)) (zip trace replies)"

text \<open>What follows the delete of the job record: nothing yet, or the caller's callback.\<close>

definition jobDelete_end :: "verror option option \<Rightarrow> jd_out list" where
  "jobDelete_end dr =
    (case dr of
       None \<Rightarrow> []
     | Some None \<Rightarrow> [Callback None]
     | Some (Some e) \<Rightarrow> [Callback (Some (VError (Some e) ''failed to delete job'' []))])"

section \<open>Listing jobs\<close>

text \<open>
  The pattern \<open>/^[\d\w-]+$/\<close>: one or more characters, each a digit, an ASCII
  letter, an underscore or a hyphen.
\<close>

definition token_chars :: string where
  "token_chars =
    ''0123456789abcdefghijklmnopqrstuvwxyzABCDEFGHIJKLMNOPQRSTUVWXYZ_-''"

definition is_token :: "string \<Rightarrow> bool" where
  "is_token s = (s \<noteq> [] \<and> list_all (\<lambda>c. c \<in> set token_chars) s)"

text \<open>
  The options of \<open>jobsList\<close>.  A string option that is absent or empty, and a number
  that is absent or zero, is false to JavaScript and so leaves its filter out.
  \<open>archived\<close> is compared with \<open>true\<close> and with \<open>false\<close>;
  \<open>wrasse\<close> is compared with \<open>null\<close> and \<open>true\<close> before it is
  taken as a string.
\<close>

datatype wrasse_option = WrasseAbsent | WrasseNull | WrasseTrue | WrasseName string

record list_options =
  lo_state :: "string option"
  lo_name :: "string option"
  lo_owner :: "string option"
  lo_jobId :: "string option"
  lo_worker :: "string option"
  lo_cancelled :: bool
  lo_archived :: "bool option"
  lo_archiveStartedBefore :: "int option"
  lo_archivedBefore :: "int option"
  lo_wrasse :: wrasse_option
  lo_doneSince :: "int option"
  lo_mtime :: "int option"
  lo_not_mtime :: "int option"
  lo_marker :: "string option"
  lo_limit :: "nat option"
  lo_sort_order :: "string option"

text \<open>
  What \<open>jobsList\<close> takes from outside this file: the clock, \<open>mod_jsprim.iso8601\<close>,
  JavaScript's conversion of a number to a string, and \<open>mod_schema.sJobStates\<close>.
\<close>

record list_env =
  le_now :: int
  le_iso8601 :: "int \<Rightarrow> string"
  le_numstr :: "int \<Rightarrow> string"
  le_sJobStates :: "string list"

text \<open>
  The entries pushed on \<open>filters\<close>.  The code pushes each as its string; here an
  entry keeps its parts and \<open>render\<close> gives the string pushed.
\<close>

datatype clause =
    Equals string string
  | Present string
  | NotPresent string
  | AtMost string string
  | AtLeast string string

fun render :: "clause \<Rightarrow> string" where
  "render (Equals a v) = ''('' @ a @ ''='' @ v @ '')''"
| "render (Present a) = ''('' @ a @ ''=*)''"
| "render (NotPresent a) = ''(!('' @ a @ ''=*))''"
| "render (AtMost a v) = ''('' @ a @ ''<='' @ v @ '')''"
| "render (AtLeast a v) = ''('' @ a @ ''>='' @ v @ '')''"

definition token_filter :: "string \<Rightarrow> string option \<Rightarrow> clause list" where
  "token_filter attr v =
    (case v of
       None \<Rightarrow> []
     | Some s \<Rightarrow> if s \<noteq> [] \<and> is_token s then [Equals attr s] else [])"

definition nonzero :: "int option \<Rightarrow> int option" where
  "nonzero v = (case v of None \<Rightarrow> None | Some n \<Rightarrow> if n = 0 then None else Some n)"

definition jobsList_filters :: "list_env \<Rightarrow> list_options \<Rightarrow> clause list" where
  "jobsList_filters env options =
    (case lo_state options of
       None \<Rightarrow> []
     | Some s \<Rightarrow> if s \<noteq> [] \<and> s \<in> set (le_sJobStates env) then [Equals ''state'' s] else [])
    @ token_filter ''name'' (lo_name options)
    @ token_filter ''owner'' (lo_owner options)
    @ token_filter ''jobId'' (lo_jobId options)
    @ token_filter ''worker'' (lo_worker options)
    @ (if lo_cancelled options then [Present ''timeCancelled''] else [])
    @ (case lo_archived options of
         Some True \<Rightarrow> [Present ''timeArchiveDone'']
       | Some False \<Rightarrow> [NotPresent ''timeArchiveDone'']
       | None \<Rightarrow> [])
    @ (case nonzero (lo_archiveStartedBefore options) of
         None \<Rightarrow> []
       | Some n \<Rightarrow> [AtMost ''timeArchiveStarted'' (le_iso8601 env (le_now env - n * 1000))])
    @ (case nonzero (lo_archivedBefore options) of
         None \<Rightarrow> []
       | Some n \<Rightarrow> [AtMost ''timeArchiveDone'' (le_iso8601 env (le_now env - n * 1000))])
    @ (case lo_wrasse options of
         WrasseNull \<Rightarrow> [NotPresent ''wrasse'']
       | WrasseTrue \<Rightarrow> [Present ''wrasse'']
       | WrasseName s \<Rightarrow> token_filter ''wrasse'' (Some s)
       | WrasseAbsent \<Rightarrow> [])
    @ (case nonzero (lo_doneSince options) of
         None \<Rightarrow> []
       | Some n \<Rightarrow> [AtLeast ''timeDone'' (le_iso8601 env (le_now env - n * 1000))])
    @ (case nonzero (lo_mtime options) of
         None \<Rightarrow> []
       | Some n \<Rightarrow> [AtLeast ''_mtime'' (le_numstr env (le_now env - n * 1000))])
    @ (case nonzero (lo_not_mtime options) of
         None \<Rightarrow> []
       | Some n \<Rightarrow> [AtMost ''_mtime'' (le_numstr env (le_now env - n * 1000))])"

definition jobsList_marker :: "list_options \<Rightarrow> clause list" where
  "jobsList_marker options =
    (case lo_marker options of
       None \<Rightarrow> []
     | Some m \<Rightarrow> if m = [] then [] else [AtLeast ''_id'' m])"

definition jobsList_filter :: "list_env \<Rightarrow> list_options \<Rightarrow> string" where
  "jobsList_filter env options =
    (let filters = jobsList_filters env options in
     (if length filters > 0
      then ''(&'' @ concat (map render filters)
      else ''(jobId=*'')
     @ concat (map render (jobsList_marker options))
     @ '')'')"

text \<open>\<open>jobsList\<close>: the one request it sends, with the options of \<open>jobMorayOptions\<close>.\<close>

definition jobsList :: "buckets \<Rightarrow> list_env \<Rightarrow> list_options \<Rightarrow> moray_req" where
  "jobsList api env options =
    FindObjects (bk_job api) (jobsList_filter env options) (lo_limit options)
      (case lo_sort_order options of None \<Rightarrow> ''ASC'' | Some s \<Rightarrow> if s = [] then ''ASC'' else s)"

text \<open>
  Modelled from the spec: the store gateway's filtered find (section 6: attribute
  equality, presence, range, negation and conjunction; a sort key with ascending or
  descending order; a page size).  The Moray server is not part of this repository.
  An attribute is a property of the record's value, or the store's own \<open>_id\<close> or
  \<open>_mtime\<close>; how the store orders a value against the literal of a range filter is
  left open (\<open>at_most\<close>, \<open>at_least\<close>).
\<close>

definition attr_of :: "mrec \<Rightarrow> string \<Rightarrow> jsval option" where
  "attr_of r a =
    (if a = ''_id'' then Some (JNum (int (rec_id r)))
     else if a = ''_mtime'' then Some (JNum (rec_mtime r))
     else prop_of (rec_value r) a)"

fun satisfies ::
  "(jsval \<Rightarrow> string \<Rightarrow> bool) \<Rightarrow> (jsval \<Rightarrow> string \<Rightarrow> bool) \<Rightarrow> mrec \<Rightarrow> clause \<Rightarrow> bool" where
  "satisfies at_most at_least r (Equals a v) = (attr_of r a = Some (JStr v))"
| "satisfies at_most at_least r (Present a) = (attr_of r a \<noteq> None)"
| "satisfies at_most at_least r (NotPresent a) = (attr_of r a = None)"
| "satisfies at_most at_least r (AtMost a v) =
    (case attr_of r a of None \<Rightarrow> False | Some x \<Rightarrow> at_most x v)"
| "satisfies at_most at_least r (AtLeast a v) =
    (case attr_of r a of None \<Rightarrow> False | Some x \<Rightarrow> at_least x v)"

definition findObjects_model ::
  "(jsval \<Rightarrow> string \<Rightarrow> bool) \<Rightarrow> (jsval \<Rightarrow> string \<Rightarrow> bool) \<Rightarrow> mrec list \<Rightarrow> clause list
    \<Rightarrow> nat option \<Rightarrow> string \<Rightarrow> mrec list" where
  "findObjects_model at_most at_least rows clauses limit order =
    (let hits = filter (\<lambda>r. list_all (satisfies at_most at_least r) clauses) rows;
         sorted = sort_key rec_id hits;
         ordered = (if order = ''DESC'' then rev sorted else sorted)
     in case limit of None \<Rightarrow> ordered | Some n \<Rightarrow> take n ordered)"

text \<open>
  The conjunction the filter string of \<open>jobsList\<close> stands for, and the records the
  modelled store answers it with.
\<close>

definition jobsList_query :: "list_env \<Rightarrow> list_options \<Rightarrow> clause list" where
  "jobsList_query env options =
    (let filters = jobsList_filters env options in
     (if length filters > 0 then filters else [Present ''jobId''])
     @ jobsList_marker options)"

definition jobsList_records ::
  "(jsval \<Rightarrow> string \<Rightarrow> bool) \<Rightarrow> (jsval \<Rightarrow> string \<Rightarrow> bool) \<Rightarrow> mrec list \<Rightarrow> list_env
    \<Rightarrow> list_options \<Rightarrow> mrec list" where
  "jobsList_records at_most at_least rows env options =
    findObjects_model at_most at_least rows (jobsList_query env options) (lo_limit options)
      (case lo_sort_order options of None \<Rightarrow> ''ASC'' | Some s \<Rightarrow> if s = [] then ''ASC'' else s)"

text \<open>\<open>jobsList\<close> called with no option at all.\<close>

definition no_options :: list_options where
  "no_options = \<lparr>lo_state = None, lo_name = None, lo_owner = None, lo_jobId = None,
     lo_worker = None, lo_cancelled = False, lo_archived = None,
     lo_archiveStartedBefore = None, lo_archivedBefore = None, lo_wrasse = WrasseAbsent,
     lo_doneSince = None, lo_mtime = None, lo_not_mtime = None, lo_marker = None,
     lo_limit = None, lo_sort_order = None\<rparr>"

section \<open>The lackey: requests to the parent agent\<close>

text \<open>
  lib/agent/lackey.js runs in the compute zone and talks to its parent, the global zone
  agent, over HTTP.  It is event driven: every function below is the body of one of its
  callbacks, taking the module's variables as a record and returning them updated.
\<close>

definition mazRetryTime :: nat where
  "mazRetryTime = 1 * 1000"

definition mazTaskLivenessInterval :: nat where
  "mazTaskLivenessInterval = 5 * 1000"

text \<open>The parts of a task description the lackey reads.\<close>

record task =
  taskId :: string
  taskPhaseType :: string
  taskInputKeys :: "string list"
  taskInputDone :: bool
  taskInputRemote :: "string option"
  taskInputFile :: "string option"

text \<open>A batch of reduce keys: \<open>{taskInputKeys, taskInputDone}\<close>.\<close>

record batch =
  batchInputKeys :: "string list"
  batchInputDone :: bool

text \<open>The result the executor's \<open>done\<close> event carries.\<close>

record exec_result =
  res_error :: "string option"
  res_core :: bool
  res_signal :: "string option"
  res_code :: int

text \<open>
  The error object of a failure report: \<open>internal error\<close> with the internal
  message, \<open>user command or child process dumped core\<close>, \<open>user command
  terminated by\<close> a signal, \<open>user command exited with code\<close> a status.
\<close>

datatype task_error =
    InternalError string
  | DumpedCore
  | TerminatedBy string
  | ExitedWithCode int

text \<open>
  The body of a POST: none, \<open>{key, nkeys}\<close> of a batch commit, or the report's
  \<open>{key?, error?}\<close>.
\<close>

datatype req_body =
    NoBody
  | BatchArg string nat
  | ReportArg "string option" "task_error option"

datatype http_req = HttpGet string | HttpPost string req_body

text \<open>
  The five places that call \<open>mazParentRequest\<close>, each with the data its two
  closures (\<open>makerequest\<close> and \<open>callback\<close>) hold.
\<close>

datatype site =
    TaskFetch
  | BatchCommit req_body batch
  | BatchNext
  | TaskReport string req_body
  | Liveness

fun site_opname :: "site \<Rightarrow> string" where
  "site_opname TaskFetch = ''GET /my/jobs/task/task?wait=true''"
| "site_opname (BatchCommit arg b) = ''POST /my/jobs/task/commit''"
| "site_opname BatchNext = ''GET /my/jobs/task/task?wait=true''"
| "site_opname (TaskReport uri arg) = ''POST '' @ uri"
| "site_opname Liveness = ''POST /my/jobs/task/live''"

fun site_expected :: "site \<Rightarrow> nat option" where
  "site_expected TaskFetch = Some 200"
| "site_expected (BatchCommit arg b) = Some 204"
| "site_expected BatchNext = Some 200"
| "site_expected (TaskReport uri arg) = Some 204"
| "site_expected Liveness = None"

fun site_request :: "site \<Rightarrow> http_req" where
  "site_request TaskFetch = HttpGet ''/my/jobs/task/task?wait=true''"
| "site_request (BatchCommit arg b) = HttpPost ''/my/jobs/task/commit'' arg"
| "site_request BatchNext = HttpGet ''/my/jobs/task/task?wait=true''"
| "site_request (TaskReport uri arg) = HttpPost uri arg"
| "site_request Liveness = HttpPost ''/my/jobs/task/live'' NoBody"

text \<open>
  What the HTTP client calls back with: an error without a response, an error with the
  response's status, or no error with the status and the parsed body (a task, for the
  two GETs).
\<close>

datatype reply =
    TransportError string
  | HttpError string nat
  | HttpOk nat "task option"

text \<open>An entry of \<open>mazClientRequests\<close>, with the call site whose closures wait for it.\<close>

record creq =
  cr_opname :: string
  cr_attempt :: nat
  cr_site :: site

text \<open>
  The executor of the current task: whether it reads a remote stream, the keys written
  to the stream so far, whether the stream was ended, the batch last given to
  \<open>batch()\<close>, and whether \<open>mazDoneBatch\<close> listens to its \<open>drain\<close>.
\<close>

record executor =
  mex_instream :: bool
  mex_written :: "string list"
  mex_ended :: bool
  mex_batch :: "batch option"
  mex_on_drain :: bool

text \<open>How the process ended, if it did.\<close>

datatype halt = Exit nat | AssertionError | TypeError

text \<open>
  The module's variables.  Three more fields record what the process did: the requests
  it sent to the parent in order (\<open>wire\<close>), the retries waiting for their timeout
  (\<open>retry_timers\<close>, each with its delay, its call site and the attempt it will
  make), and how it ended
  (\<open>halted\<close>).  \<open>next_uuid\<close> stands for \<open>mod_uuid.v4()\<close>: each call gives a
  new id.
\<close>

record lackey =
  mazLivenessPending :: "nat option"
  mazLivenessTimeout :: bool
  mazRetryTimeout :: bool
  mazClientRequests :: "(nat \<times> creq) list"
  mazPipeline :: bool
  mazCurrentTask :: "task option"
  mazErrorSave :: "string option"
  mazExecutor :: "executor option"
  mazExecutorResult :: "exec_result option"
  mazUserEmitted :: bool
  next_uuid :: nat
  wire :: "http_req list"
  retry_timers :: "(nat \<times> site \<times> nat) list"
  halted :: "halt option"

text \<open>
  \<open>makerequest\<close>: the closure that sends the request.  The one of the liveness tick
  first clears \<open>mazLivenessPending\<close>.
\<close>

definition makerequest :: "site \<Rightarrow> lackey \<Rightarrow> lackey" where
  "makerequest s d =
    (let d1 = (case s of Liveness \<Rightarrow> d\<lparr>mazLivenessPending := None\<rparr> | _ \<Rightarrow> d)
     in d1\<lparr>wire := wire d1 @ [site_request s]\<rparr>)"

text \<open>
  \<open>mazParentRequest\<close> up to the point where it returns: the request is entered in
  \<open>mazClientRequests\<close> under a new id and \<open>makerequest\<close> is called.
\<close>

definition mazParentRequest :: "site \<Rightarrow> nat \<Rightarrow> lackey \<Rightarrow> lackey" where
  "mazParentRequest s attempt d =
    (let uuid = next_uuid d;
         d1 = d\<lparr>next_uuid := uuid + 1,
                 mazClientRequests := mazClientRequests d @
                   [(uuid, \<lparr>cr_opname = site_opname s, cr_attempt = attempt, cr_site = s\<rparr>)]\<rparr>
     in makerequest s d1)"

text \<open>
  What the response handler of \<open>mazParentRequest\<close> decides: call back without an
  error and with the result, call back with the client's error (which is no error when
  the client gave none), or try again after \<open>mazRetryTime\<close>.
\<close>

datatype verdict = Deliver "task option" | Surface "string option" | Retry

definition expected_status :: "nat option \<Rightarrow> nat \<Rightarrow> bool" where
  "expected_status expected_code status =
    (Some status = expected_code \<or> (expected_code = None \<and> status \<ge> 200 \<and> status < 400))"

definition client_error_status :: "nat \<Rightarrow> bool" where
  "client_error_status status = (status \<ge> 400 \<and> status \<noteq> 410 \<and> status < 500)"

fun mazParentRequest_verdict :: "nat option \<Rightarrow> reply \<Rightarrow> verdict" where
  "mazParentRequest_verdict expected_code (TransportError err) = Retry"
| "mazParentRequest_verdict expected_code (HttpError err status) =
    (if client_error_status status then Surface (Some err) else Retry)"
| "mazParentRequest_verdict expected_code (HttpOk status result) =
    (if expected_status expected_code status then Deliver result
     else if client_error_status status then Surface None
     else Retry)"

text \<open>\<open>MarlinExecutor.prototype.batch\<close>: needs the stream; writes the keys, ends the
  stream on the last batch, remembers the batch.\<close>

definition executor_batch :: "batch \<Rightarrow> executor \<Rightarrow> halt + executor" where
  "executor_batch state ex =
    (if \<not> mex_instream ex then Inl AssertionError
     else Inr (ex\<lparr>mex_written := mex_written ex @ batchInputKeys state,
                  mex_ended := (mex_ended ex \<or> batchInputDone state),
                  mex_batch := Some state\<rparr>))"

text \<open>
  \<open>mazTaskRunSpawn\<close> with the executor's \<open>start\<close>: a task with a local input
  file, or without a remote input, reads a file; otherwise the executor reads the remote
  stream and is given the task's keys as first batch.  A map task must have exactly one
  key.  Only a reduce task has \<open>mazDoneBatch\<close> listen to \<open>drain\<close>.
\<close>

definition mazTaskRunSpawn :: "task \<Rightarrow> lackey \<Rightarrow> lackey" where
  "mazTaskRunSpawn t d =
    (let reduce = (taskPhaseType t = ''reduce'');
         stream = (taskInputFile t = None \<and> taskInputRemote t \<noteq> None
                   \<and> taskInputRemote t \<noteq> Some []);
         ex0 = \<lparr>mex_instream = stream, mex_written = [], mex_ended = False,
                 mex_batch = None, mex_on_drain = reduce\<rparr>
     in if \<not> reduce \<and> length (taskInputKeys t) \<noteq> 1 then d\<lparr>halted := Some AssertionError\<rparr>
        else if stream then
          (case executor_batch \<lparr>batchInputKeys = taskInputKeys t,
                                  batchInputDone = taskInputDone t\<rparr> ex0 of
             Inl h \<Rightarrow> d\<lparr>halted := Some h\<rparr>
           | Inr ex \<Rightarrow> d\<lparr>mazExecutor := Some ex\<rparr>)
        else d\<lparr>mazExecutor := Some ex0\<rparr>)"

text \<open>\<open>mazTaskFetch\<close>: the long poll for the next task.\<close>

definition mazTaskFetch :: "lackey \<Rightarrow> lackey" where
  "mazTaskFetch d = mazParentRequest TaskFetch 1 (d\<lparr>mazRetryTimeout := False\<rparr>)"

text \<open>
  \<open>mazDoneBatch\<close>, the listener of the executor's \<open>drain\<close>: nothing for an
  empty batch or once the executor's result is recorded; otherwise the commit of the
  batch, with its first key and its number of keys.
\<close>

definition mazDoneBatch :: "batch \<Rightarrow> lackey \<Rightarrow> lackey" where
  "mazDoneBatch b d =
    (case batchInputKeys b of
       [] \<Rightarrow> d
     | key # rest \<Rightarrow>
        if mazExecutorResult d \<noteq> None then d
        else mazParentRequest (BatchCommit (BatchArg key (length (key # rest))) b) 1 d)"

text \<open>
  \<open>mazDecodeError\<close>: the first of a pipeline error, an executor error, a core dump,
  a signal, a non-zero exit status.  Without a pipeline error it reads the executor's
  result, which must be there.
\<close>

definition mazDecodeError :: "string option \<Rightarrow> exec_result option \<Rightarrow> halt + task_error option" where
  "mazDecodeError pipelineError result =
    (case pipelineError of
       Some err \<Rightarrow> Inr (Some (InternalError err))
     | None \<Rightarrow>
        (case result of
           None \<Rightarrow> Inl TypeError
         | Some r \<Rightarrow>
            (case res_error r of
               Some err \<Rightarrow> Inr (Some (InternalError err))
             | None \<Rightarrow>
                if res_core r then Inr (Some DumpedCore)
                else (case res_signal r of
                        Some sig \<Rightarrow> Inr (Some (TerminatedBy sig))
                      | None \<Rightarrow>
                         if res_code r \<noteq> 0 then Inr (Some (ExitedWithCode (res_code r)))
                         else Inr None))))"

text \<open>
  \<open>mazTaskReport\<close>: the final report of the task, a commit or a failure.  A task
  that is not a reduce task reports its one key.
\<close>

definition mazTaskReport :: "string option \<Rightarrow> lackey \<Rightarrow> lackey" where
  "mazTaskReport err d =
    (case mazCurrentTask d of
       None \<Rightarrow> d\<lparr>halted := Some TypeError\<rparr>
     | Some t \<Rightarrow>
        if taskPhaseType t \<noteq> ''reduce'' \<and> length (taskInputKeys t) \<noteq> 1
        then d\<lparr>halted := Some AssertionError\<rparr>
        else
          (let key = (if taskPhaseType t \<noteq> ''reduce'' then Some (hd (taskInputKeys t)) else None)
           in case mazDecodeError err (mazExecutorResult d) of
                Inl h \<Rightarrow> d\<lparr>halted := Some h\<rparr>
              | Inr (Some error) \<Rightarrow>
                 mazParentRequest
                   (TaskReport ''/my/jobs/task/fail'' (ReportArg key (Some error))) 1 d
              | Inr None \<Rightarrow>
                 mazParentRequest
                   (TaskReport ''/my/jobs/task/commit'' (ReportArg key None)) 1 d))"

text \<open>The end of the task's pipeline: the liveness interval is cleared and the task reported.\<close>

definition pipeline_end :: "string option \<Rightarrow> lackey \<Rightarrow> lackey" where
  "pipeline_end suberr d =
    (if \<not> mazPipeline d then d\<lparr>halted := Some AssertionError\<rparr>
     else mazTaskReport suberr (d\<lparr>mazLivenessTimeout := False, mazPipeline := False\<rparr>))"

text \<open>
  The callbacks given to \<open>mazParentRequest\<close>, by call site, with the error and the
  result they are called with.
\<close>

definition mazTaskFetch_callback :: "string option \<Rightarrow> task option \<Rightarrow> lackey \<Rightarrow> lackey" where
  "mazTaskFetch_callback err t d =
    (if err \<noteq> None \<or> mazPipeline d \<or> mazCurrentTask d \<noteq> None \<or> mazExecutor d \<noteq> None
        \<or> mazExecutorResult d \<noteq> None \<or> mazErrorSave d \<noteq> None
     then d\<lparr>halted := Some AssertionError\<rparr>
     else d\<lparr>mazCurrentTask := t, mazUserEmitted := False, mazLivenessTimeout := True,
            mazPipeline := True\<rparr>)"

definition mazDoneBatch_committed :: "batch \<Rightarrow> string option \<Rightarrow> lackey \<Rightarrow> lackey" where
  "mazDoneBatch_committed b err d =
    (if err \<noteq> None then d\<lparr>halted := Some (Exit 1)\<rparr>
     else if batchInputDone b \<or> mazCurrentTask d = None then d
     else mazParentRequest BatchNext 1 d)"

definition mazDoneBatch_next :: "string option \<Rightarrow> task option \<Rightarrow> lackey \<Rightarrow> lackey" where
  "mazDoneBatch_next suberr t d =
    (if suberr \<noteq> None then d\<lparr>halted := Some (Exit 1)\<rparr>
     else case (mazCurrentTask d, t) of
       (Some cur, Some new) \<Rightarrow>
         if taskId cur \<noteq> taskId new then d\<lparr>halted := Some AssertionError\<rparr>
         else
          (case mazExecutor d of
             None \<Rightarrow> (d\<lparr>mazCurrentTask := Some new\<rparr>)\<lparr>halted := Some TypeError\<rparr>
           | Some ex \<Rightarrow>
              (case executor_batch \<lparr>batchInputKeys = taskInputKeys new,
                                      batchInputDone = taskInputDone new\<rparr> ex of
                 Inl h \<Rightarrow> (d\<lparr>mazCurrentTask := Some new\<rparr>)\<lparr>halted := Some h\<rparr>
               | Inr ex' \<Rightarrow> d\<lparr>mazCurrentTask := Some new, mazExecutor := Some ex'\<rparr>))
     | _ \<Rightarrow> d\<lparr>halted := Some TypeError\<rparr>)"

definition mazTaskReport_callback :: "string option \<Rightarrow> lackey \<Rightarrow> lackey" where
  "mazTaskReport_callback e d =
    mazTaskFetch (d\<lparr>mazCurrentTask := None, mazExecutor := None, mazExecutorResult := None,
                    mazErrorSave := None\<rparr>)"

fun site_callback :: "site \<Rightarrow> string option \<Rightarrow> task option \<Rightarrow> lackey \<Rightarrow> lackey" where
  "site_callback TaskFetch err result d = mazTaskFetch_callback err result d"
| "site_callback (BatchCommit arg b) err result d = mazDoneBatch_committed b err d"
| "site_callback BatchNext err result d = mazDoneBatch_next err result d"
| "site_callback (TaskReport uri arg) err result d = mazTaskReport_callback err d"
| "site_callback Liveness err result d = d"

text \<open>
  The response handler of \<open>mazParentRequest\<close> for the request entered under
  \<open>uuid\<close>: the entry is removed; then the callback is called, or a retry is set
  for \<open>mazRetryTime\<close> from now with the next attempt number.
\<close>

definition mazParentRequest_response :: "nat \<Rightarrow> reply \<Rightarrow> lackey \<Rightarrow> lackey" where
  "mazParentRequest_response uuid r d =
    (case map_of (mazClientRequests d) uuid of
       None \<Rightarrow> d
     | Some e \<Rightarrow>
        (let d1 = d\<lparr>mazClientRequests := filter (\<lambda>p. fst p \<noteq> uuid) (mazClientRequests d)\<rparr>
         in case mazParentRequest_verdict (site_expected (cr_site e)) r of
              Deliver result \<Rightarrow> site_callback (cr_site e) None result d1
            | Surface err \<Rightarrow> site_callback (cr_site e) err None d1
            | Retry \<Rightarrow>
               d1\<lparr>mazRetryTimeout := True,
                   retry_timers := retry_timers d1 @
                     [(mazRetryTime, cr_site e, cr_attempt e + 1)]\<rparr>))"

text \<open>The timeout of the \<open>i\<close>-th waiting retry: \<open>mazParentRequest\<close> again.\<close>

definition retry_fire :: "nat \<Rightarrow> lackey \<Rightarrow> lackey" where
  "retry_fire i d =
    (if i < length (retry_timers d)
     then (case retry_timers d ! i of
             (delay, s, attempt) \<Rightarrow>
               mazParentRequest s attempt
                 (d\<lparr>retry_timers := take i (retry_timers d) @ drop (Suc i) (retry_timers d)\<rparr>))
     else d)"

text \<open>\<open>mazTaskLivenessTick\<close>, called by the interval timer at time \<open>now\<close>.\<close>

definition mazTaskLivenessTick :: "nat \<Rightarrow> lackey \<Rightarrow> lackey" where
  "mazTaskLivenessTick now d =
    (if mazLivenessPending d \<noteq> None then d
     else mazParentRequest Liveness 1 (d\<lparr>mazLivenessPending := Some now\<rparr>))"

text \<open>
  \<open>mazFileSave\<close>'s callback, and the two capture stages: stdout is captured unless
  the user emitted output, stderr unless the result's code is zero; the first error of a
  capture is kept in \<open>mazErrorSave\<close>.
\<close>

definition file_saved :: "string option \<Rightarrow> lackey \<Rightarrow> lackey" where
  "file_saved err d =
    (case err of
       None \<Rightarrow> d
     | Some e \<Rightarrow> if mazErrorSave d = None then d\<lparr>mazErrorSave := Some e\<rparr> else d)"

definition capture_stages :: "string option \<Rightarrow> string option \<Rightarrow> lackey \<Rightarrow> lackey" where
  "capture_stages out_err err_err d =
    (let d1 = (if mazUserEmitted d then d else file_saved out_err d)
     in case mazExecutorResult d1 of
          None \<Rightarrow> file_saved err_err d1
        | Some r \<Rightarrow> if res_code r = 0 then d1 else file_saved err_err d1)"

text \<open>
  The events the process reacts to: the answer to a request, the timeout of a retry, a
  tick of the liveness interval, the end of the cleanup stage, the stream's
  \<open>drain\<close>, the executor's \<open>done\<close>, the end of the two capture stages, and a
  proxied PUT of the user's with the stdout marker.  An event that cannot happen in the
  state (the interval is not set, the executor is gone) changes nothing, and neither
  does any event once the process has ended.
\<close>

datatype event =
    Response nat reply
  | RetryFire nat
  | Tick nat
  | CleanupDone "string option"
  | Drain
  | ExecDone exec_result
  | CaptureDone "string option" "string option"
  | UserEmitted

definition on_cleanup_done :: "string option \<Rightarrow> lackey \<Rightarrow> lackey" where
  "on_cleanup_done err d =
    (if \<not> mazPipeline d \<or> mazExecutor d \<noteq> None then d
     else case err of
       Some e \<Rightarrow> pipeline_end (Some e) d
     | None \<Rightarrow>
        (case mazCurrentTask d of
           None \<Rightarrow> d\<lparr>halted := Some TypeError\<rparr>
         | Some t \<Rightarrow> mazTaskRunSpawn t d))"

definition on_drain :: "lackey \<Rightarrow> lackey" where
  "on_drain d =
    (case mazExecutor d of
       None \<Rightarrow> d
     | Some ex \<Rightarrow>
        (case mex_batch ex of
           None \<Rightarrow> d
         | Some b \<Rightarrow> if mex_instream ex \<and> mex_on_drain ex then mazDoneBatch b d else d))"

definition on_exec_done :: "exec_result \<Rightarrow> lackey \<Rightarrow> lackey" where
  "on_exec_done result d =
    (if \<not> mazPipeline d \<or> mazExecutor d = None \<or> mazExecutorResult d \<noteq> None then d
     else d\<lparr>mazExecutorResult := Some result\<rparr>)"

definition on_capture_done :: "string option \<Rightarrow> string option \<Rightarrow> lackey \<Rightarrow> lackey" where
  "on_capture_done out_err err_err d =
    (if \<not> mazPipeline d \<or> mazExecutorResult d = None then d
     else pipeline_end None (capture_stages out_err err_err d))"

definition step :: "event \<Rightarrow> lackey \<Rightarrow> lackey" where
  "step ev d =
    (if halted d \<noteq> None then d
     else case ev of
       Response uuid r \<Rightarrow> mazParentRequest_response uuid r d
     | RetryFire i \<Rightarrow> retry_fire i d
     | Tick now \<Rightarrow> if mazLivenessTimeout d then mazTaskLivenessTick now d else d
     | CleanupDone err \<Rightarrow> on_cleanup_done err d
     | Drain \<Rightarrow> on_drain d
     | ExecDone result \<Rightarrow> on_exec_done result d
     | CaptureDone out_err err_err \<Rightarrow> on_capture_done out_err err_err d
     | UserEmitted \<Rightarrow> d\<lparr>mazUserEmitted := True\<rparr>)"

text \<open>
  The process from \<open>main\<close>: nothing is set, and once the server listens the first
  task is asked for.  \<open>run\<close> takes the events in the order they happen.
\<close>

definition lackey_start :: lackey where
  "lackey_start =
    mazTaskFetch
      \<lparr>mazLivenessPending = None, mazLivenessTimeout = False, mazRetryTimeout = False,
       mazClientRequests = [], mazPipeline = False, mazCurrentTask = None,
       mazErrorSave = None, mazExecutor = None, mazExecutorResult = None,
       mazUserEmitted = False, next_uuid = 0, wire = [], retry_timers = [],
       halted = None\<rparr>"

definition run :: "event list \<Rightarrow> lackey \<Rightarrow> lackey" where
  "run evs d = fold step evs d"

text \<open>The liveness requests that have been sent and not answered.\<close>

definition liveness_in_flight :: "lackey \<Rightarrow> nat" where
  "liveness_in_flight d =
    length (filter (\<lambda>p. cr_site (snd p) = Liveness) (mazClientRequests d))"

section \<open>Concrete records used to exercise the theorems\<close>

fun is_input_piped :: "verror \<Rightarrow> bool" where
  "is_input_piped (VError None msg args) = (msg = ''job \"%s\" input is piped from %s'')"
| "is_input_piped _ = False"

definition example_api :: buckets where
  "example_api = \<lparr>bk_job = ''marlin_jobs_v2'', bk_jobinput = ''marlin_jobinputs_v2'',
     bk_task = ''marlin_tasks_v2'', bk_taskinput = ''marlin_taskinputs_v2'',
     bk_taskoutput = ''marlin_taskoutputs_v2'', bk_error = ''marlin_errors_v2''\<rparr>"

definition example_job :: mrec where
  "example_job = \<lparr>rec_bucket = ''marlin_jobs_v2'', rec_key = ''job1'',
     rec_value = [(''jobId'', JStr ''job1''), (''owner'', JStr ''bob123''),
                  (''phases'', JArr [JObj [(''exec'', JStr ''wc'')]]),
                  (''state'', JStr ''running''),
                  (''timeCancelled'', JStr ''2013-03-01T00:00:00.000Z'')],
     rec_etag = ''etag1'', rec_id = 1, rec_mtime = 1362218400000\<rparr>"

definition example_piped_job :: mrec where
  "example_piped_job = \<lparr>rec_bucket = ''marlin_jobs_v2'', rec_key = ''job2'',
     rec_value = [(''jobId'', JStr ''job2''), (''owner'', JStr ''bob123''),
                  (''state'', JStr ''queued''), (''input'', JStr ''job1'')],
     rec_etag = ''etag7'', rec_id = 2, rec_mtime = 1362218400000\<rparr>"

definition example_replies :: "((verror + mrec) \<times> verror option) list" where
  "example_replies = [(Inl (MorayError ''timeout''), None), (Inr example_job, None)]"

definition example_ok_replies :: "((verror + mrec) \<times> verror option) list" where
  "example_ok_replies = [(Inr example_job, None)]"

definition example_now :: string where
  "example_now = ''2013-03-02T10:00:00.000Z''"

definition example_task :: mrec where
  "example_task = \<lparr>rec_bucket = ''marlin_tasks_v2'', rec_key = ''task1'',
     rec_value = [(''jobId'', JStr ''job1''), (''taskId'', JStr ''task1''),
                  (''phaseNum'', JNum 0), (''state'', JStr ''dispatched''),
                  (''input'', JStr ''/bob123/stor/in.txt''),
                  (''timeAccepted'', JStr ''2013-03-02T09:00:00.000Z'')],
     rec_etag = ''etag3'', rec_id = 3, rec_mtime = 1362218400000\<rparr>"

definition example_uuids :: "nat \<Rightarrow> string" where
  "example_uuids i = ''uuid-'' @ replicate i CHR ''x''"

definition example_done_task :: mrec where
  "example_done_task = \<lparr>rec_bucket = ''marlin_tasks_v2'', rec_key = ''task1'',
     rec_value = [(''jobId'', JStr ''job1''), (''taskId'', JStr ''task1''),
                  (''phaseNum'', JNum 0), (''state'', JStr ''done''),
                  (''input'', JStr ''/bob123/stor/in.txt''),
                  (''timeAccepted'', JStr ''2013-03-02T09:00:00.000Z''),
                  (''timeDone'', JStr ''2013-03-02T10:00:00.000Z''),
                  (''machine'', JStr ''mrjob_fake_machine''),
                  (''timeStarted'', JStr ''2013-03-02T10:00:00.000Z''),
                  (''result'', JStr ''ok''), (''nOutputs'', JNum 2)],
     rec_etag = ''etag4'', rec_id = 3, rec_mtime = 1362218400000\<rparr>"

definition example_task_requests :: "moray_req list" where
  "example_task_requests =
    [GetObject ''marlin_tasks_v2'' ''task1'' False,
     PutObject ''marlin_taskoutputs_v2'' ''uuid-''
       [(''jobId'', JStr ''job1''), (''taskId'', JStr ''task1''), (''phaseNum'', JNum 0),
        (''output'', JStr ''/nobody/stor/nonexistent''),
        (''timeCreated'', JStr ''2013-03-02T10:00:00.000Z'')] None,
     PutObject ''marlin_taskoutputs_v2'' ''uuid-x''
       [(''jobId'', JStr ''job1''), (''taskId'', JStr ''task1''), (''phaseNum'', JNum 0),
        (''output'', JStr ''/nobody/stor/nonexistent''),
        (''timeCreated'', JStr ''2013-03-02T10:00:00.000Z'')] None,
     PutObject ''marlin_tasks_v2'' ''task1'' (rec_value example_done_task) (Some ''etag3'')]"

definition example_delete_replies :: "(verror + (string \<times> nat) list) list" where
  "example_delete_replies =
    [Inr [(''marlin_jobinputs_v2'', 2), (''marlin_errors_v2'', 0), (''marlin_tasks_v2'', 2),
          (''marlin_taskinputs_v2'', 1), (''marlin_taskoutputs_v2'', 2)],
     Inr [(''marlin_jobinputs_v2'', 1), (''marlin_tasks_v2'', 2), (''marlin_taskoutputs_v2'', 0)],
     Inr [(''marlin_tasks_v2'', 0)]]"

definition example_delete_trace :: "jd_out list" where
  "example_delete_trace =
    [Send (BatchDeleteMany [''marlin_jobinputs_v2'', ''marlin_errors_v2'', ''marlin_tasks_v2'',
            ''marlin_taskinputs_v2'', ''marlin_taskoutputs_v2''] ''(jobId=job1)'' 2 300000),
     Send (BatchDeleteMany [''marlin_jobinputs_v2'', ''marlin_tasks_v2'', ''marlin_taskoutputs_v2'']
            ''(jobId=job1)'' 2 300000),
     Send (BatchDeleteMany [''marlin_tasks_v2''] ''(jobId=job1)'' 2 300000),
     Send (DeleteObject ''marlin_jobs_v2'' ''job1''),
     Callback None]"

definition example_etags :: "(string \<times> nat) list" where
  "example_etags =
    [(''marlin_jobinputs_v2'', 2), (''marlin_errors_v2'', 0), (''marlin_tasks_v2'', 2),
     (''marlin_taskinputs_v2'', 1), (''marlin_taskoutputs_v2'', 2)]"

definition example_env :: list_env where
  "example_env = \<lparr>le_now = 1362218400000, le_iso8601 = (\<lambda>t. ''2013-03-02T10:00:00.000Z''),
     le_numstr = (\<lambda>n. ''1362218400000''),
     le_sJobStates = [''queued'', ''running'', ''done'']\<rparr>"

definition example_odd_job :: mrec where
  "example_odd_job = \<lparr>rec_bucket = ''marlin_jobs_v2'', rec_key = ''job3'',
     rec_value = [(''jobId'', JStr ''job3''), (''owner'', JStr ''eve; x''),
                  (''state'', JStr ''queued'')],
     rec_etag = ''etag9'', rec_id = 5, rec_mtime = 1362218400000\<rparr>"

definition example_rows :: "mrec list" where
  "example_rows = [example_odd_job, example_piped_job, example_job]"

definition never :: "jsval \<Rightarrow> string \<Rightarrow> bool" where
  "never x v = False"

definition example_reduce_task :: task where
  "example_reduce_task = \<lparr>taskId = ''task7'', taskPhaseType = ''reduce'',
     taskInputKeys = [''/bob123/stor/a'', ''/bob123/stor/b'', ''/bob123/stor/c''],
     taskInputDone = False, taskInputRemote = Some ''/var/run/marlin.sock'',
     taskInputFile = None\<rparr>"

definition example_batch :: batch where
  "example_batch = \<lparr>batchInputKeys = [''/bob123/stor/a'', ''/bob123/stor/b'', ''/bob123/stor/c''],
     batchInputDone = False\<rparr>"

definition example_exit_ok :: exec_result where
  "example_exit_ok = \<lparr>res_error = None, res_core = False, res_signal = None, res_code = 0\<rparr>"

definition example_running :: "event list" where
  "example_running = [Response 0 (HttpOk 200 (Some example_reduce_task)), CleanupDone None]"

definition example_race :: "event list" where
  "example_race = example_running @
     [Drain, ExecDone example_exit_ok, CaptureDone None None, Response 2 (HttpOk 204 None)]"

definition example_executor :: executor where
  "example_executor = \<lparr>mex_instream = True,
     mex_written = [''/bob123/stor/a'', ''/bob123/stor/b'', ''/bob123/stor/c''],
     mex_ended = False, mex_batch = Some example_batch, mex_on_drain = True\<rparr>"

definition example_running_state :: lackey where
  "example_running_state =
    \<lparr>mazLivenessPending = None, mazLivenessTimeout = True, mazRetryTimeout = False,
     mazClientRequests = [], mazPipeline = True, mazCurrentTask = Some example_reduce_task,
     mazErrorSave = None, mazExecutor = Some example_executor, mazExecutorResult = None,
     mazUserEmitted = False, next_uuid = 1,
     wire = [HttpGet ''/my/jobs/task/task?wait=true''], retry_timers = [], halted = None\<rparr>"


definition example_reporting :: "event list" where
  "example_reporting = example_running @ [ExecDone example_exit_ok, CaptureDone None None]"






section \<open>Facts about JSON values and the read-modify-write\<close>

lemma deepCopy_id: "deepCopy v = v"
  by (induction v) (auto simp: map_idI prod.map_ident intro!: map_idI)

lemma deepCopyObj_id: "deepCopyObj fs = fs"
  unfolding deepCopyObj_def by (induction fs) (auto simp: deepCopy_id)

lemma hasOwnProperty_assign:
  "hasOwnProperty (assign k v obj) f = (f = k \<or> hasOwnProperty obj f)"
  by (auto simp: hasOwnProperty_def assign_def update_conv')

lemma hasOwnProperty_assign_opt:
  "f \<noteq> k \<Longrightarrow> hasOwnProperty (assign_opt k e obj) f = hasOwnProperty obj f"
  by (auto simp: hasOwnProperty_def assign_opt_def assign_def update_conv' delete_conv' split: option.splits)

lemma retry_reqs:
  "r = PutObject b k v e \<Longrightarrow>
   r \<in> set (fst (jobFetchAndUpdateRetry api jobid u n i replies)) \<Longrightarrow>
   \<exists>g p j. (g, p) \<in> set replies \<and> r \<in> set (fst (jobFetchAndUpdateTry api jobid (u j) g p))"
proof (induction replies arbitrary: n i)
  case Nil
  then show ?case by simp
next
  case (Cons gp rs)
  obtain g p where gp: "gp = (g, p)" by (cases gp)
  obtain reqs res where t: "jobFetchAndUpdateTry api jobid (u i) g p = (reqs, res)"
    by (cases "jobFetchAndUpdateTry api jobid (u i) g p")
  have here: "r \<in> set reqs \<Longrightarrow> ?case"
  proof -
    assume "r \<in> set reqs"
    with t have "(g, p) \<in> set (gp # rs) \<and> r \<in> set (fst (jobFetchAndUpdateTry api jobid (u i) g p))"
      using gp by simp
    then show ?case by blast
  qed
  show ?case
  proof (cases res)
    case (Inr job)
    with Cons.prems gp t have "r \<in> set reqs" by simp
    then show ?thesis by (rule here)
  next
    case (Inl err)
    show ?thesis
    proof (cases n)
      case 0
      with Cons.prems gp t Inl have "r \<in> set reqs" by simp
      then show ?thesis by (rule here)
    next
      case (Suc m)
      obtain reqs' res' where rr: "jobFetchAndUpdateRetry api jobid u m (Suc i) rs = (reqs', res')"
        by (cases "jobFetchAndUpdateRetry api jobid u m (Suc i) rs")
      from Cons.prems gp t Inl Suc rr have "r \<in> set reqs \<or> r \<in> set reqs'" by auto
      then show ?thesis
      proof
        assume "r \<in> set reqs"
        then show ?thesis by (rule here)
      next
        assume "r \<in> set reqs'"
        with rr have "r \<in> set (fst (jobFetchAndUpdateRetry api jobid u m (Suc i) rs))" by simp
        from Cons.IH [OF Cons.prems(1) this] obtain g' p' j where
          "(g', p') \<in> set rs" "r \<in> set (fst (jobFetchAndUpdateTry api jobid (u j) g' p'))"
          by blast
        then have "(g', p') \<in> set (gp # rs)
            \<and> r \<in> set (fst (jobFetchAndUpdateTry api jobid (u j) g' p'))"
          by simp
        then show ?thesis by blast
      qed
    qed
  qed
qed

lemma update_reqs:
  "r = PutObject b k v e \<Longrightarrow> r \<in> set (fst (jobFetchAndUpdate api jobid retry u replies)) \<Longrightarrow>
   \<exists>g p j. (g, p) \<in> set replies \<and> r \<in> set (fst (jobFetchAndUpdateTry api jobid (u j) g p))"
proof (cases retry)
  case None
  assume r: "r \<in> set (fst (jobFetchAndUpdate api jobid retry u replies))"
    and p: "r = PutObject b k v e"
  show ?thesis
  proof (cases replies)
    case Nil
    with r p None show ?thesis by (simp add: jobFetchAndUpdate_def)
  next
    case (Cons gp rs)
    obtain g p where gp: "gp = (g, p)" by (cases gp)
    with r None Cons have "r \<in> set (fst (jobFetchAndUpdateTry api jobid (u 0) g p))"
      by (simp add: jobFetchAndUpdate_def split: prod.splits)
    with Cons gp have "(g, p) \<in> set replies
        \<and> r \<in> set (fst (jobFetchAndUpdateTry api jobid (u 0) g p))" by simp
    then show ?thesis by blast
  qed
next
  case (Some n)
  assume a: "r \<in> set (fst (jobFetchAndUpdate api jobid retry u replies))" "r = PutObject b k v e"
  with Some have "r \<in> set (fst (jobFetchAndUpdateRetry api jobid u n 0 replies))"
    by (simp add: jobFetchAndUpdate_def)
  from retry_reqs [OF a(2) this] show ?thesis .
qed

lemma try_put:
  "PutObject b k v e \<in> set (fst (jobFetchAndUpdateTry api jobid u g p)) \<Longrightarrow>
   \<exists>job. g = Inr job \<and> b = bk_job api \<and> k = jobid \<and> e = Some (rec_etag job) \<and>
     u (rec_value job) = (None, v)"
  by (auto simp: jobFetchAndUpdateTry_def Let_def deepCopyObj_id split: sum.splits prod.splits option.splits)

lemma try_heartbeat:
  "jobFetchAndUpdateTry api jobid jobArchiveHeartbeat_update (Inr job) None =
     ([GetObject (bk_job api) jobid True,
       PutObject (bk_job api) jobid (rec_value job) (Some (rec_etag job))], Inr job)"
  by (simp add: jobFetchAndUpdateTry_def Let_def deepCopyObj_id jobArchiveHeartbeat_update_def)

lemma update_first_ok:
  "jobFetchAndUpdateTry api jobid (u 0) g p = (reqs, Inr job) \<Longrightarrow>
   jobFetchAndUpdate api jobid retry u ((g, p) # rs) = (reqs, Some (Inr job))"
  by (cases retry) (simp_all add: jobFetchAndUpdate_def)

lemma retry_result:
  "snd (jobFetchAndUpdateRetry api jobid u n i replies) = Some (Inr job) \<Longrightarrow>
   \<exists>g p j. (g, p) \<in> set replies \<and> snd (jobFetchAndUpdateTry api jobid (u j) g p) = Inr job"
proof (induction replies arbitrary: n i)
  case Nil
  then show ?case by simp
next
  case (Cons gp rs)
  obtain g p where gp: "gp = (g, p)" by (cases gp)
  obtain reqs res where t: "jobFetchAndUpdateTry api jobid (u i) g p = (reqs, res)"
    by (cases "jobFetchAndUpdateTry api jobid (u i) g p")
  show ?case
  proof (cases res)
    case (Inr job')
    with Cons.prems gp t have "job' = job" by simp
    with Inr t gp have "(g, p) \<in> set (gp # rs)
        \<and> snd (jobFetchAndUpdateTry api jobid (u i) g p) = Inr job"
      by simp
    then show ?thesis by blast
  next
    case (Inl err)
    show ?thesis
    proof (cases n)
      case 0
      with Cons.prems gp t Inl show ?thesis by simp
    next
      case (Suc m)
      with Cons.prems gp t Inl
      have "snd (jobFetchAndUpdateRetry api jobid u m (Suc i) rs) = Some (Inr job)"
        by (simp split: prod.splits)
      from Cons.IH [OF this] obtain g' p' j where
        "(g', p') \<in> set rs" "snd (jobFetchAndUpdateTry api jobid (u j) g' p') = Inr job"
        by blast
      then have "(g', p') \<in> set (gp # rs)
          \<and> snd (jobFetchAndUpdateTry api jobid (u j) g' p') = Inr job"
        by simp
      then show ?thesis by blast
    qed
  qed
qed

lemma update_result:
  "snd (jobFetchAndUpdate api jobid retry u replies) = Some (Inr job) \<Longrightarrow>
   \<exists>g p j. (g, p) \<in> set replies \<and> snd (jobFetchAndUpdateTry api jobid (u j) g p) = Inr job"
proof (cases retry)
  case None
  assume r: "snd (jobFetchAndUpdate api jobid retry u replies) = Some (Inr job)"
  show ?thesis
  proof (cases replies)
    case Nil
    with r None show ?thesis by (simp add: jobFetchAndUpdate_def)
  next
    case (Cons gp rs)
    obtain g p where gp: "gp = (g, p)" by (cases gp)
    with r None Cons have "snd (jobFetchAndUpdateTry api jobid (u 0) g p) = Inr job"
      by (simp add: jobFetchAndUpdate_def split: prod.splits)
    with Cons gp have "(g, p) \<in> set replies
        \<and> snd (jobFetchAndUpdateTry api jobid (u 0) g p) = Inr job"
      by simp
    then show ?thesis by blast
  qed
next
  case (Some n)
  assume "snd (jobFetchAndUpdate api jobid retry u replies) = Some (Inr job)"
  with Some have "snd (jobFetchAndUpdateRetry api jobid u n 0 replies) = Some (Inr job)"
    by (simp add: jobFetchAndUpdate_def)
  from retry_result [OF this] show ?thesis .
qed

lemma try_result_ok:
  "snd (jobFetchAndUpdateTry api jobid u g p) = Inr job \<Longrightarrow> g = Inr job \<and> p = None"
  by (auto simp: jobFetchAndUpdateTry_def Let_def split: sum.splits prod.splits option.splits)

text \<open>
  Claim C10.  \<open>jobArchiveHeartbeat\<close> applies the identity mutation.  When the
  fetch and the conditional write of the first attempt succeed, exactly one
  \<open>putObject\<close> is sent; it carries the value that was read, field for field, under
  the etag that was read, and the caller gets the fetched record.  In any run, with or
  without a retry policy, every value the heartbeat writes is the value of a record it
  fetched (under that record's etag), and a record it hands to the caller is one it
  fetched and wrote back successfully.
\<close>

theorem jobArchiveHeartbeat_identity:
  "jobArchiveHeartbeat api jobid retry ((Inr job, None) # rs) =
     ([GetObject (bk_job api) jobid True,
       PutObject (bk_job api) jobid (rec_value job) (Some (rec_etag job))],
      Some (Inr job))
   \<and> (\<forall>b k v e. PutObject b k v e \<in> set (fst (jobArchiveHeartbeat api jobid retry replies)) \<longrightarrow>
         (\<exists>fetched p. (Inr fetched, p) \<in> set replies \<and> b = bk_job api \<and> k = jobid \<and>
            v = rec_value fetched \<and> e = Some (rec_etag fetched)))
   \<and> (\<forall>returned. snd (jobArchiveHeartbeat api jobid retry replies) = Some (Inr returned) \<longrightarrow>
         (Inr returned, None) \<in> set replies)"
proof (intro conjI allI impI)
  show "jobArchiveHeartbeat api jobid retry ((Inr job, None) # rs) =
     ([GetObject (bk_job api) jobid True,
       PutObject (bk_job api) jobid (rec_value job) (Some (rec_etag job))],
      Some (Inr job))"
    unfolding jobArchiveHeartbeat_def by (rule update_first_ok) (rule try_heartbeat)
next
  fix b k v e
  assume "PutObject b k v e \<in> set (fst (jobArchiveHeartbeat api jobid retry replies))"
  then have "PutObject b k v e \<in> set (fst (jobFetchAndUpdate api jobid retry
      (\<lambda>i. jobArchiveHeartbeat_update) replies))"
    by (simp add: jobArchiveHeartbeat_def)
  from update_reqs [OF refl this] obtain g p where gp: "(g, p) \<in> set replies"
    and "PutObject b k v e \<in> set (fst (jobFetchAndUpdateTry api jobid jobArchiveHeartbeat_update g p))"
    by blast
  from try_put [OF this(2)] obtain fetched where
    "g = Inr fetched" "b = bk_job api" "k = jobid" "e = Some (rec_etag fetched)"
    "jobArchiveHeartbeat_update (rec_value fetched) = (None, v)" by blast
  with gp have "(Inr fetched, p) \<in> set replies \<and> b = bk_job api \<and> k = jobid \<and>
            v = rec_value fetched \<and> e = Some (rec_etag fetched)"
    by (simp add: jobArchiveHeartbeat_update_def)
  then show "\<exists>fetched p. (Inr fetched, p) \<in> set replies \<and> b = bk_job api \<and> k = jobid \<and>
            v = rec_value fetched \<and> e = Some (rec_etag fetched)" by blast
next
  fix returned
  assume "snd (jobArchiveHeartbeat api jobid retry replies) = Some (Inr returned)"
  then have "snd (jobFetchAndUpdate api jobid retry (\<lambda>i. jobArchiveHeartbeat_update) replies) =
      Some (Inr returned)"
    by (simp add: jobArchiveHeartbeat_def)
  from update_result [OF this] obtain g p where "(g, p) \<in> set replies"
    "snd (jobFetchAndUpdateTry api jobid jobArchiveHeartbeat_update g p) = Inr returned"
    by blast
  then show "(Inr returned, None) \<in> set replies"
    by (auto dest: try_result_ok)
qed

lemma example_heartbeat_run:
  "jobArchiveHeartbeat example_api ''job1'' (Some 2) example_replies =
     ([GetObject ''marlin_jobs_v2'' ''job1'' True,
       GetObject ''marlin_jobs_v2'' ''job1'' True,
       PutObject ''marlin_jobs_v2'' ''job1'' (rec_value example_job) (Some ''etag1'')],
      Some (Inr example_job))"
  by (simp add: jobArchiveHeartbeat_def jobFetchAndUpdate_def jobFetchAndUpdateTry_def
      jobArchiveHeartbeat_update_def deepCopyObj_id example_api_def example_job_def
      example_replies_def numeral_2_eq_2 Let_def)

theorem jobArchiveHeartbeat_identity_witness:
  "PutObject ''marlin_jobs_v2'' ''job1'' (rec_value example_job) (Some ''etag1'')
     \<in> set (fst (jobArchiveHeartbeat example_api ''job1'' (Some 2) example_replies))
   \<and> (\<exists>fetched p.
         (Inr fetched, p) \<in> set example_replies
         \<and> ''marlin_jobs_v2'' = bk_job example_api \<and> ''job1'' = ''job1''
         \<and> rec_value example_job = rec_value fetched \<and> Some ''etag1'' = Some (rec_etag fetched))
   \<and> snd (jobArchiveHeartbeat example_api ''job1'' (Some 2) example_replies) = Some (Inr example_job)
   \<and> (Inr example_job, None) \<in> set example_replies"
proof -
  note inst = jobArchiveHeartbeat_identity [where api = example_api and jobid = "''job1''"
      and retry = "Some 2" and job = example_job and rs = "[]" and replies = example_replies]
  have put: "PutObject ''marlin_jobs_v2'' ''job1'' (rec_value example_job) (Some ''etag1'')
     \<in> set (fst (jobArchiveHeartbeat example_api ''job1'' (Some 2) example_replies))"
    by (simp add: example_heartbeat_run)
  have res: "snd (jobArchiveHeartbeat example_api ''job1'' (Some 2) example_replies) = Some (Inr example_job)"
    by (simp add: example_heartbeat_run)
  note written = inst [THEN conjunct2, THEN conjunct1, rule_format, OF put]
  note returned = inst [THEN conjunct2, THEN conjunct2, rule_format, OF res]
  from put written res returned show ?thesis
    by - (intro conjI, assumption+)
qed

lemma jobEndInput_update_ok:
  "\<not> truthy (prop_of job ''input'') \<Longrightarrow>
   jobEndInput_update now job = (None, assign ''timeInputDone'' (JStr now) job)"
  by (simp add: jobEndInput_update_def)

lemma preserved_by_update:
  assumes "u \<in> {jobCancel_update now, jobEndInput_update now, jobArchiveStart_update now wrasse,
                 jobArchiveDone_update now, jobArchiveHeartbeat_update}"
    and "f = ''timeInputDone'' \<or> f = ''timeCancelled''"
    and "u job = (None, v)"
    and "hasOwnProperty job f"
  shows "hasOwnProperty v f"
  using assms
  by (auto simp: jobCancel_update_def jobEndInput_update_def jobArchiveStart_update_def
      jobArchiveDone_update_def jobArchiveHeartbeat_update_def hasOwnProperty_assign
      hasOwnProperty_assign_opt split: if_splits)

text \<open>
  Claim C9.  Take any of the five job operations that write the job record
  (\<open>jobCancel\<close>, \<open>jobEndInput\<close>, \<open>jobArchiveStart\<close>,
  \<open>jobArchiveDone\<close>, \<open>jobArchiveHeartbeat\<close>), with or without a retry
  policy and whatever the store answers.  Every \<open>putObject\<close> it sends writes the
  job's key under the etag of a record it fetched, and if that fetched record had
  \<open>timeInputDone\<close> (or \<open>timeCancelled\<close>) set, the written value has it
  set too.
\<close>

theorem timestamps_never_cleared:
  assumes "reqs \<in> {fst (jobCancel api jobid retry clock replies),
                    fst (jobEndInput api jobid retry clock replies),
                    fst (jobArchiveStart api jobid retry clock wrasse replies),
                    fst (jobArchiveDone api jobid retry clock replies),
                    fst (jobArchiveHeartbeat api jobid retry replies)}"
    and "PutObject b k v e \<in> set reqs"
    and "f = ''timeInputDone'' \<or> f = ''timeCancelled''"
  shows "\<exists>fetched p. (Inr fetched, p) \<in> set replies \<and> b = bk_job api \<and> k = jobid \<and>
           e = Some (rec_etag fetched) \<and>
           (hasOwnProperty (rec_value fetched) f \<longrightarrow> hasOwnProperty v f)"
proof -
  have known: ?thesis
    if u: "\<And>i. u i \<in> {jobCancel_update (clock i), jobEndInput_update (clock i),
              jobArchiveStart_update (clock i) wrasse, jobArchiveDone_update (clock i),
              jobArchiveHeartbeat_update}"
      and reqs: "reqs = fst (jobFetchAndUpdate api jobid retry u replies)" for u
  proof -
    from assms(2) reqs obtain g p j where gp: "(g, p) \<in> set replies"
      and "PutObject b k v e \<in> set (fst (jobFetchAndUpdateTry api jobid (u j) g p))"
      by (blast dest: update_reqs [OF refl])
    from try_put [OF this(2)] obtain fetched where f:
      "g = Inr fetched" "b = bk_job api" "k = jobid" "e = Some (rec_etag fetched)"
      "u j (rec_value fetched) = (None, v)" by blast
    have "hasOwnProperty (rec_value fetched) f \<longrightarrow> hasOwnProperty v f"
      using preserved_by_update [OF u assms(3) f(5)] by blast
    with gp f show ?thesis by blast
  qed
  from assms(1) consider
      "reqs = fst (jobFetchAndUpdate api jobid retry (\<lambda>i. jobCancel_update (clock i)) replies)"
    | "reqs = fst (jobFetchAndUpdate api jobid retry (\<lambda>i. jobEndInput_update (clock i)) replies)"
    | "reqs = fst (jobFetchAndUpdate api jobid retry
                (\<lambda>i. jobArchiveStart_update (clock i) wrasse) replies)"
    | "reqs = fst (jobFetchAndUpdate api jobid retry (\<lambda>i. jobArchiveDone_update (clock i)) replies)"
    | "reqs = fst (jobFetchAndUpdate api jobid retry (\<lambda>i. jobArchiveHeartbeat_update) replies)"
    unfolding jobCancel_def jobEndInput_def jobArchiveStart_def jobArchiveDone_def
      jobArchiveHeartbeat_def by blast
  then show ?thesis
  proof cases
    case 1
    show ?thesis by (rule known [OF _ 1]) simp
  next
    case 2
    show ?thesis by (rule known [OF _ 2]) simp
  next
    case 3
    show ?thesis by (rule known [OF _ 3]) simp
  next
    case 4
    show ?thesis by (rule known [OF _ 4]) simp
  next
    case 5
    show ?thesis by (rule known [OF _ 5]) simp
  qed
qed

lemma example_endinput_run:
  "jobEndInput example_api ''job1'' None clock example_ok_replies =
     ([GetObject ''marlin_jobs_v2'' ''job1'' True,
       PutObject ''marlin_jobs_v2'' ''job1''
         (rec_value example_job @ [(''timeInputDone'', JStr (clock 0))]) (Some ''etag1'')],
      Some (Inr example_job))"
  by (simp add: jobEndInput_def jobFetchAndUpdate_def jobFetchAndUpdateTry_def
      jobEndInput_update_def deepCopyObj_id example_api_def example_job_def
      prop_of_def assign_def Let_def example_ok_replies_def)

theorem timestamps_never_cleared_witness:
  "PutObject ''marlin_jobs_v2'' ''job1''
      (rec_value example_job @ [(''timeInputDone'', JStr example_now)]) (Some ''etag1'')
     \<in> set (fst (jobEndInput example_api ''job1'' None (\<lambda>i. example_now) example_ok_replies))
   \<and> hasOwnProperty (rec_value example_job) ''timeCancelled''
   \<and> hasOwnProperty (rec_value example_job @ [(''timeInputDone'', JStr example_now)])
         ''timeCancelled''"
proof -
  let ?v = "rec_value example_job @ [(''timeInputDone'', JStr example_now)]"
  let ?reqs = "fst (jobEndInput example_api ''job1'' None (\<lambda>i. example_now) example_ok_replies)"
  have put: "PutObject ''marlin_jobs_v2'' ''job1'' ?v (Some ''etag1'') \<in> set ?reqs"
    by (simp add: example_endinput_run)
  have pre: "hasOwnProperty (rec_value example_job) ''timeCancelled''"
    by (simp add: hasOwnProperty_def example_job_def)
  have "\<exists>fetched p. (Inr fetched, p) \<in> set example_ok_replies \<and>
          ''marlin_jobs_v2'' = bk_job example_api \<and> ''job1'' = ''job1'' \<and>
          Some ''etag1'' = Some (rec_etag fetched) \<and>
          (hasOwnProperty (rec_value fetched) ''timeCancelled'' \<longrightarrow>
             hasOwnProperty ?v ''timeCancelled'')"
    by (rule timestamps_never_cleared [where reqs = ?reqs and retry = None
          and wrasse = None and clock = "\<lambda>i. example_now" and f = "''timeCancelled''"])
       (simp_all add: put)
  then obtain fetched p where "(Inr fetched, p) \<in> set example_ok_replies"
    and imp: "hasOwnProperty (rec_value fetched) ''timeCancelled'' \<longrightarrow>
             hasOwnProperty ?v ''timeCancelled''" by blast
  then have "fetched = example_job" by (simp add: example_ok_replies_def)
  with imp pre have "hasOwnProperty ?v ''timeCancelled''" by simp
  with put pre show ?thesis by simp
qed

lemma try_endinput:
  "jobFetchAndUpdateTry api jobid (jobEndInput_update now) getR putR =
    (case getR of
       Inl err \<Rightarrow> ([GetObject (bk_job api) jobid True],
                   Inl (VError (Some err) ''failed to fetch job'' []))
     | Inr job \<Rightarrow>
        if truthy (prop_of (rec_value job) ''input'')
        then ([GetObject (bk_job api) jobid True],
              Inl (VError None ''job \"%s\" input is piped from %s''
                     [prop_of (rec_value job) ''jobId'', prop_of (rec_value job) ''input'']))
        else ([GetObject (bk_job api) jobid True,
               PutObject (bk_job api) jobid
                 (assign ''timeInputDone'' (JStr now) (rec_value job)) (Some (rec_etag job))],
              case putR of
                Some suberr \<Rightarrow> Inl (VError (Some suberr) ''failed to update job'' [])
              | None \<Rightarrow> Inr job))"
  by (simp add: jobFetchAndUpdateTry_def jobEndInput_update_def deepCopyObj_id Let_def
      split: sum.splits)

lemma endinput_once:
  "jobEndInput api jobid None clock ((getR, putR) # rs) =
    (fst (jobFetchAndUpdateTry api jobid (jobEndInput_update (clock 0)) getR putR),
     Some (snd (jobFetchAndUpdateTry api jobid (jobEndInput_update (clock 0)) getR putR)))"
  by (simp add: jobEndInput_def jobFetchAndUpdate_def split: prod.splits)

text \<open>
  Claim C4.  One attempt of \<open>jobEndInput\<close> (no retry policy), whatever the store
  answers: the callback gets the "input is piped" error if and only if the job was
  fetched and its \<open>input\<close> property is set, that is, holds a value JavaScript
  takes as true, which is how \<open>jobCreate\<close> writes it.  Nothing else of the
  record is looked at.  When it is set, only the fetch is sent: the record is not
  written.  When it is not and the conditional write succeeds, the written value is the
  fetched one with \<open>timeInputDone\<close> assigned, and the call succeeds with the
  fetched record.  For a record whose \<open>input\<close>, when present, is such a value
  (\<open>input_wf\<close>), "set" is the same as "present".
\<close>

theorem jobEndInput_fails_iff_input:
  "((\<exists>e. snd (jobEndInput api jobid None clock ((getR, putR) # rs)) = Some (Inl e) \<and>
         is_input_piped e)
      \<longleftrightarrow> (\<exists>job. getR = Inr job \<and> truthy (prop_of (rec_value job) ''input'')))
   \<and> (truthy (prop_of (rec_value job) ''input'') \<longrightarrow>
        jobEndInput api jobid None clock ((Inr job, putR) # rs) =
          ([GetObject (bk_job api) jobid True],
           Some (Inl (VError None ''job \"%s\" input is piped from %s''
                   [prop_of (rec_value job) ''jobId'', prop_of (rec_value job) ''input'']))))
   \<and> (\<not> truthy (prop_of (rec_value job) ''input'') \<longrightarrow>
        jobEndInput api jobid None clock ((Inr job, None) # rs) =
          ([GetObject (bk_job api) jobid True,
            PutObject (bk_job api) jobid
              (assign ''timeInputDone'' (JStr (clock 0)) (rec_value job)) (Some (rec_etag job))],
           Some (Inr job)))
   \<and> (input_wf (rec_value job) \<longrightarrow>
        truthy (prop_of (rec_value job) ''input'') = hasOwnProperty (rec_value job) ''input'')"
proof (intro conjI impI)
  show "(\<exists>e. snd (jobEndInput api jobid None clock ((getR, putR) # rs)) = Some (Inl e) \<and>
         is_input_piped e)
      \<longleftrightarrow> (\<exists>job. getR = Inr job \<and> truthy (prop_of (rec_value job) ''input''))"
    by (cases getR; cases putR) (auto simp: endinput_once try_endinput)
next
  assume "truthy (prop_of (rec_value job) ''input'')"
  then show "jobEndInput api jobid None clock ((Inr job, putR) # rs) =
          ([GetObject (bk_job api) jobid True],
           Some (Inl (VError None ''job \"%s\" input is piped from %s''
                   [prop_of (rec_value job) ''jobId'', prop_of (rec_value job) ''input''])))"
    by (simp add: endinput_once try_endinput)
next
  assume "\<not> truthy (prop_of (rec_value job) ''input'')"
  then show "jobEndInput api jobid None clock ((Inr job, None) # rs) =
          ([GetObject (bk_job api) jobid True,
            PutObject (bk_job api) jobid
              (assign ''timeInputDone'' (JStr (clock 0)) (rec_value job)) (Some (rec_etag job))],
           Some (Inr job))"
    by (simp add: endinput_once try_endinput)
next
  assume "input_wf (rec_value job)"
  then show "truthy (prop_of (rec_value job) ''input'') = hasOwnProperty (rec_value job) ''input''"
    by (cases "map_of (rec_value job) ''input''")
       (auto simp: input_wf_def hasOwnProperty_def prop_of_def)
qed

theorem jobEndInput_fails_iff_input_witness:
  "truthy (prop_of (rec_value example_piped_job) ''input'')
   \<and> jobEndInput example_api ''job2'' None (\<lambda>i. example_now) ((Inr example_piped_job, None) # []) =
          ([GetObject (bk_job example_api) ''job2'' True],
           Some (Inl (VError None ''job \"%s\" input is piped from %s''
                   [prop_of (rec_value example_piped_job) ''jobId'',
                    prop_of (rec_value example_piped_job) ''input''])))
   \<and> \<not> truthy (prop_of (rec_value example_job) ''input'')
   \<and> jobEndInput example_api ''job1'' None (\<lambda>i. example_now) ((Inr example_job, None) # []) =
          ([GetObject (bk_job example_api) ''job1'' True,
            PutObject (bk_job example_api) ''job1''
              (assign ''timeInputDone'' (JStr example_now) (rec_value example_job))
              (Some (rec_etag example_job))],
           Some (Inr example_job))"
proof -
  have piped: "truthy (prop_of (rec_value example_piped_job) ''input'')"
    by (simp add: example_piped_job_def prop_of_def)
  have plain: "\<not> truthy (prop_of (rec_value example_job) ''input'')"
    by (simp add: example_job_def prop_of_def)
  note refused = jobEndInput_fails_iff_input [where job = example_piped_job and api = example_api
      and jobid = "''job2''" and clock = "\<lambda>i. example_now" and putR = None and rs = "[]"
      and getR = "Inr example_piped_job", THEN conjunct2, THEN conjunct1, rule_format, OF piped]
  note accepted = jobEndInput_fails_iff_input [where job = example_job and api = example_api
      and jobid = "''job1''" and clock = "\<lambda>i. example_now" and putR = None and rs = "[]"
      and getR = "Inr example_job", THEN conjunct2, THEN conjunct2, THEN conjunct1,
      rule_format, OF plain]
  from piped refused plain accepted show ?thesis
    by - (intro conjI, assumption+)
qed

section \<open>Facts about marking a task done\<close>

lemma prop_of_assign:
  "prop_of (assign k v obj) f = (if f = k then Some v else prop_of obj f)"
  by (simp add: prop_of_def assign_def update_conv')

lemma written_task_props:
  "prop_of (taskDoneWriteTask_value nout now task) f =
    (if f = ''state'' then Some (JStr ''done'')
     else if f = ''timeDone'' then Some (JStr now)
     else if f = ''result'' then Some (JStr (if nout = None then ''fail'' else ''ok''))
     else if f = ''nOutputs'' then
       (case nout of None \<Rightarrow> prop_of task ''nOutputs'' | Some n \<Rightarrow> Some (JNum (int n)))
     else if f = ''machine'' then
       (if hasOwnProperty task ''machine'' then prop_of task ''machine''
        else Some (JStr ''mrjob_fake_machine''))
     else if f = ''timeAccepted'' then
       (if hasOwnProperty task ''timeAccepted'' then prop_of task ''timeAccepted''
        else Some (JStr now))
     else if f = ''timeStarted'' then
       (if hasOwnProperty task ''timeStarted'' then prop_of task ''timeStarted''
        else Some (JStr now))
     else prop_of task f)"
  by (cases nout)
     (simp_all add: taskDoneWriteTask_value_def Let_def prop_of_assign hasOwnProperty_assign)

lemma written_task_is_done: "state_is_done (taskDoneWriteTask_value nout now task)"
  by (simp add: state_is_done_def written_task_props)

lemma taskDone_on_done:
  "state_is_done (rec_value record) \<Longrightarrow>
   taskDone api taskid nout ecode emessage now_out now uuids (Inr record) othersR taskR =
     ([GetObject (bk_task api) taskid False], Some (VError None ''task is already done'' []))"
  by (simp add: taskDone_def taskDoneFetch_def)

lemma taskDone_success_last:
  assumes "taskDone api taskid nout ecode emessage now_out now uuids (Inr record) othersR taskR = (reqs, None)"
  shows "last reqs = PutObject (rec_bucket record) (rec_key record)
           (taskDoneWriteTask_value nout now (rec_value record)) (Some (rec_etag record))"
  using assms
  by (auto simp: taskDone_def taskDoneFetch_def taskDoneWriteTask_def
      split: if_splits prod.splits option.splits)

text \<open>
  Claim C3.  When the record \<open>taskDone\<close> fetches already has state
  \<open>done\<close>, the call ends in its fetch stage with the error "task is already
  done", and the fetch is the only request it sends: no error record, no task-output
  record, no write of the task.  In particular, when a first call went through, its
  last request wrote the task back (to the bucket and key of the fetched record, under
  the fetched etag) with state \<open>done\<close>, so any later call that fetches that
  value, whatever its arguments and whatever etag the store gave the new version, ends
  the same way and writes nothing.
\<close>

theorem taskDone_twice:
  "(state_is_done (rec_value trec) \<longrightarrow>
      taskDone api taskid nout ecode emessage now_out now uuids (Inr trec) othersR taskR =
        ([GetObject (bk_task api) taskid False],
         Some (VError None ''task is already done'' [])))
   \<and> (taskDone api taskid nout ecode emessage now_out now uuids (Inr trec) othersR taskR = (reqs, None) \<longrightarrow>
        (\<exists>v. last reqs = PutObject (rec_bucket trec) (rec_key trec) v (Some (rec_etag trec))
           \<and> state_is_done v
           \<and> (\<forall>etag' nout' ecode' emessage' now_out' now' uuids' othersR' taskR'.
                 taskDone api taskid nout' ecode' emessage' now_out' now' uuids'
                   (Inr (trec\<lparr>rec_value := v, rec_etag := etag'\<rparr>)) othersR' taskR' =
                   ([GetObject (bk_task api) taskid False],
                    Some (VError None ''task is already done'' [])))))"
proof (intro conjI impI)
  assume "state_is_done (rec_value trec)"
  then show "taskDone api taskid nout ecode emessage now_out now uuids (Inr trec) othersR taskR =
        ([GetObject (bk_task api) taskid False],
         Some (VError None ''task is already done'' []))"
    by (rule taskDone_on_done)
next
  let ?v = "taskDoneWriteTask_value nout now (rec_value trec)"
  assume "taskDone api taskid nout ecode emessage now_out now uuids (Inr trec) othersR taskR = (reqs, None)"
  then have "last reqs = PutObject (rec_bucket trec) (rec_key trec) ?v (Some (rec_etag trec))"
    by (rule taskDone_success_last)
  moreover have "state_is_done ?v" by (rule written_task_is_done)
  moreover have "\<forall>etag' nout' ecode' emessage' now_out' now' uuids' othersR' taskR'.
                 taskDone api taskid nout' ecode' emessage' now_out' now' uuids'
                   (Inr (trec\<lparr>rec_value := ?v, rec_etag := etag'\<rparr>)) othersR' taskR' =
                   ([GetObject (bk_task api) taskid False],
                    Some (VError None ''task is already done'' []))"
    by (simp add: taskDone_on_done written_task_is_done)
  ultimately show "\<exists>v. last reqs = PutObject (rec_bucket trec) (rec_key trec) v (Some (rec_etag trec))
           \<and> state_is_done v
           \<and> (\<forall>etag' nout' ecode' emessage' now_out' now' uuids' othersR' taskR'.
                 taskDone api taskid nout' ecode' emessage' now_out' now' uuids'
                   (Inr (trec\<lparr>rec_value := v, rec_etag := etag'\<rparr>)) othersR' taskR' =
                   ([GetObject (bk_task api) taskid False],
                    Some (VError None ''task is already done'' [])))"
    by blast
qed

lemma example_taskDone_run:
  "taskDone example_api ''task1'' (Some 2) None None example_now example_now example_uuids
     (Inr example_task) (\<lambda>i. None) None = (example_task_requests, None)"
  by code_simp

text \<open>
  The two situations of claim C3 on concrete records: a task already done, and a
  dispatched task marked done with two outputs and then fetched again.
\<close>

theorem taskDone_twice_witness:
  "state_is_done (rec_value example_done_task)
   \<and> taskDone example_api ''task1'' (Some 2) None None example_now example_now example_uuids
        (Inr example_done_task) (\<lambda>i. None) None =
        ([GetObject (bk_task example_api) ''task1'' False],
         Some (VError None ''task is already done'' []))
   \<and> taskDone example_api ''task1'' (Some 2) None None example_now example_now example_uuids
        (Inr example_task) (\<lambda>i. None) None = (example_task_requests, None)
   \<and> (\<exists>v. last example_task_requests =
            PutObject (rec_bucket example_task) (rec_key example_task) v
              (Some (rec_etag example_task))
         \<and> state_is_done v
         \<and> (\<forall>etag' nout' ecode' emessage' now_out' now' uuids' othersR' taskR'.
               taskDone example_api ''task1'' nout' ecode' emessage' now_out' now' uuids'
                 (Inr (example_task\<lparr>rec_value := v, rec_etag := etag'\<rparr>)) othersR' taskR' =
                 ([GetObject (bk_task example_api) ''task1'' False],
                  Some (VError None ''task is already done'' []))))"
proof -
  have already: "state_is_done (rec_value example_done_task)"
    by code_simp
  note second = taskDone_twice [where trec = example_done_task and api = example_api
      and taskid = "''task1''" and nout = "Some 2" and ecode = None and emessage = None
      and now_out = example_now and now = example_now and uuids = example_uuids and othersR = "\<lambda>i. None"
      and taskR = None, THEN conjunct1, rule_format, OF already]
  note first = taskDone_twice [where trec = example_task and api = example_api
      and taskid = "''task1''" and nout = "Some 2" and ecode = None and emessage = None
      and now_out = example_now and now = example_now and uuids = example_uuids and othersR = "\<lambda>i. None"
      and taskR = None and reqs = example_task_requests, THEN conjunct2, rule_format,
      OF example_taskDone_run]
  from already second example_taskDone_run first show ?thesis
    by - (intro conjI, assumption+)
qed

text \<open>
  Claim C7 as stated fails for \<open>machine\<close>: on a task that never had the
  property, the write sets it to the fixed name \<open>mrjob_fake_machine\<close>, not to
  the current time.
\<close>

theorem taskDoneWriteTask_machine_counterexample:
  "\<not> hasOwnProperty (rec_value example_task) ''machine''
   \<and> taskDoneWriteTask example_task (Some 2) example_now None =
       ([PutObject ''marlin_tasks_v2'' ''task1'' (rec_value example_done_task) (Some ''etag3'')],
        None)
   \<and> prop_of (rec_value example_done_task) ''machine'' = Some (JStr ''mrjob_fake_machine'')
   \<and> prop_of (rec_value example_done_task) ''machine'' \<noteq> Some (JStr example_now)"
  by code_simp

text \<open>
  Claim C7, amended.  The last stage of \<open>taskDone\<close> sends one write, to the
  fetched record's bucket and key and conditioned on the fetched etag.  The written value
  has state \<open>done\<close> and \<open>timeDone\<close> the current time; with an output
  count \<open>n\<close> its result is \<open>ok\<close> and \<open>nOutputs\<close> is \<open>n\<close>,
  without one its result is \<open>fail\<close> and \<open>nOutputs\<close> is left as it was;
  \<open>machine\<close> is kept when the record has the property and is set to
  \<open>mrjob_fake_machine\<close> otherwise; \<open>timeAccepted\<close> and
  \<open>timeStarted\<close> are kept when the record has them and set to the current time
  otherwise; every other property is as fetched.
\<close>

theorem taskDoneWriteTask_fills:
  "taskDoneWriteTask trec nout now taskR =
     ([PutObject (rec_bucket trec) (rec_key trec)
         (taskDoneWriteTask_value nout now (rec_value trec)) (Some (rec_etag trec))],
      taskR)
   \<and> prop_of (taskDoneWriteTask_value nout now task) ''state'' = Some (JStr ''done'')
   \<and> prop_of (taskDoneWriteTask_value nout now task) ''timeDone'' = Some (JStr now)
   \<and> prop_of (taskDoneWriteTask_value (Some n) now task) ''result'' = Some (JStr ''ok'')
   \<and> prop_of (taskDoneWriteTask_value (Some n) now task) ''nOutputs'' = Some (JNum (int n))
   \<and> prop_of (taskDoneWriteTask_value None now task) ''result'' = Some (JStr ''fail'')
   \<and> prop_of (taskDoneWriteTask_value None now task) ''nOutputs'' = prop_of task ''nOutputs''
   \<and> prop_of (taskDoneWriteTask_value nout now task) ''machine'' =
        (if hasOwnProperty task ''machine'' then prop_of task ''machine''
         else Some (JStr ''mrjob_fake_machine''))
   \<and> prop_of (taskDoneWriteTask_value nout now task) ''timeAccepted'' =
        (if hasOwnProperty task ''timeAccepted'' then prop_of task ''timeAccepted''
         else Some (JStr now))
   \<and> prop_of (taskDoneWriteTask_value nout now task) ''timeStarted'' =
        (if hasOwnProperty task ''timeStarted'' then prop_of task ''timeStarted''
         else Some (JStr now))
   \<and> (f \<notin> {''state'', ''timeDone'', ''result'', ''nOutputs'', ''machine'', ''timeAccepted'',
              ''timeStarted''} \<longrightarrow>
        prop_of (taskDoneWriteTask_value nout now task) f = prop_of task f)"
  by (simp add: taskDoneWriteTask_def written_task_props)

theorem taskDoneWriteTask_fills_witness:
  "''jobId'' \<notin> {''state'', ''timeDone'', ''result'', ''nOutputs'', ''machine'', ''timeAccepted'',
              ''timeStarted''}
   \<and> prop_of (taskDoneWriteTask_value (Some 2) example_now (rec_value example_task)) ''jobId'' =
       prop_of (rec_value example_task) ''jobId''
   \<and> prop_of (taskDoneWriteTask_value (Some 2) example_now (rec_value example_task)) ''machine'' =
       Some (JStr ''mrjob_fake_machine'')
   \<and> prop_of (taskDoneWriteTask_value (Some 2) example_now (rec_value example_task)) ''timeAccepted'' =
       Some (JStr ''2013-03-02T09:00:00.000Z'')
   \<and> prop_of (taskDoneWriteTask_value (Some 2) example_now (rec_value example_task)) ''timeStarted'' =
       Some (JStr example_now)"
proof -
  note inst = taskDoneWriteTask_fills [where task = "rec_value example_task" and nout = "Some 2"
      and now = example_now and f = "''jobId''"]
  have other: "''jobId'' \<notin> {''state'', ''timeDone'', ''result'', ''nOutputs'', ''machine'',
      ''timeAccepted'', ''timeStarted''}" by simp
  have m: "\<not> hasOwnProperty (rec_value example_task) ''machine''" by code_simp
  have a: "hasOwnProperty (rec_value example_task) ''timeAccepted''" by code_simp
  have av: "prop_of (rec_value example_task) ''timeAccepted'' = Some (JStr ''2013-03-02T09:00:00.000Z'')"
    by code_simp
  have s: "\<not> hasOwnProperty (rec_value example_task) ''timeStarted''" by code_simp
  from inst other m a av s show ?thesis by simp
qed

text \<open>
  The work queue of the task-output writes.  Twelve outputs with every write answered
  well: twelve writes, and the stage succeeds.  Twelve outputs with the first write
  refused: the ten writes of the first round are all that is sent, and the stage fails
  with that error.
\<close>

lemma taskoutput_queue_all_written:
  "wq_puts (taskoutput_queue 12 (\<lambda>i. None)) = 12
   \<and> wq_result (taskoutput_queue 12 (\<lambda>i. None)) = None"
  by code_simp

lemma taskoutput_queue_first_refused:
  "wq_puts (taskoutput_queue 12 (\<lambda>i. if i = 0 then Some (MorayError ''overloaded'') else None)) = 10
   \<and> wq_result (taskoutput_queue 12
         (\<lambda>i. if i = 0 then Some (MorayError ''overloaded'') else None)) =
       Some (VError (Some (MorayError ''overloaded'')) ''failed to save taskoutput'' [])"
  by code_simp

section \<open>Records as jobCreate writes them\<close>

lemma jobCreate_value_input:
  "prop_of (jobCreate_value conf key now) ''input'' =
    (case jc_input conf of None \<Rightarrow> None | Some v \<Rightarrow> if truthy (Some v) then Some v else None)"
  by (simp add: jobCreate_value_def prop_of_def split: option.splits)

lemma jobCreate_input_wf: "input_wf (jobCreate_value conf key now)"
  by (simp add: input_wf_def hasOwnProperty_def jobCreate_value_input [unfolded prop_of_def]
      prop_of_def split: option.splits)

lemma jobCreate_writes_input_wf:
  "jobCreate api conf now uuid putR = Inr (reqs, res) \<Longrightarrow> PutObject b k v e \<in> set reqs \<Longrightarrow>
   input_wf v"
  by (auto simp: jobCreate_def Let_def jobCreate_input_wf split: if_splits)

lemma update_keeps_input:
  assumes "u \<in> {jobCancel_update now, jobEndInput_update now, jobArchiveStart_update now wrasse,
                 jobArchiveDone_update now, jobArchiveHeartbeat_update}"
    and "u job = (None, v)"
  shows "prop_of v ''input'' = prop_of job ''input''"
  using assms
  by (auto simp: jobCancel_update_def jobEndInput_update_def jobArchiveStart_update_def
      jobArchiveDone_update_def jobArchiveHeartbeat_update_def prop_of_assign
      prop_of_def assign_opt_def assign_def update_conv' delete_conv'
      split: if_splits option.splits)

lemma update_keeps_input_wf:
  assumes "u \<in> {jobCancel_update now, jobEndInput_update now, jobArchiveStart_update now wrasse,
                 jobArchiveDone_update now, jobArchiveHeartbeat_update}"
    and "u job = (None, v)"
    and "input_wf job"
  shows "input_wf v"
  using assms
  by (auto simp: jobCancel_update_def jobEndInput_update_def jobArchiveStart_update_def
      jobArchiveDone_update_def jobArchiveHeartbeat_update_def input_wf_def hasOwnProperty_def
      prop_of_def assign_opt_def assign_def update_conv' delete_conv'
      split: if_splits option.splits)

section \<open>Facts about the cascading delete\<close>

lemma entry_fst:
  "fst (jobDelete_entry limit m acc) =
     (if snd m < limit then filter (\<lambda>r. r \<noteq> fst m) (fst acc) else fst acc)"
  by (simp add: jobDelete_entry_def)

lemma fold_entry_fst:
  "fst (fold (jobDelete_entry limit) etags acc) =
     filter (\<lambda>r. \<not> (\<exists>c. (r, c) \<in> set etags \<and> c < limit)) (fst acc)"
proof (induction etags arbitrary: acc)
  case Nil
  then show ?case by simp
next
  case (Cons m ms)
  obtain b c where m: "m = (b, c)" by (cases m)
  have "fst (fold (jobDelete_entry limit) (m # ms) acc) =
      filter (\<lambda>r. \<not> (\<exists>c. (r, c) \<in> set ms \<and> c < limit)) (fst (jobDelete_entry limit m acc))"
    by (simp add: Cons.IH)
  also have "\<dots> = filter (\<lambda>r. \<not> (\<exists>c. (r, c) \<in> set (m # ms) \<and> c < limit)) (fst acc)"
  proof (cases "c < limit")
    case True
    then show ?thesis
      unfolding entry_fst m by (auto intro!: filter_cong)
  next
    case False
    then show ?thesis
      unfolding entry_fst m by (auto intro!: filter_cong)
  qed
  finally show ?case .
qed

lemma fold_entry_snd:
  "snd (fold (jobDelete_entry limit) etags acc) = (snd acc \<and> (\<forall>m\<in>set etags. snd m < limit))"
  by (induction etags arbitrary: acc) (auto simp: jobDelete_entry_def)

text \<open>A whole run with page limit 2: three batches, then the job record's delete.\<close>

lemma example_delete_run:
  "jobDelete example_api ''job1'' (Some 2) None example_delete_replies (Some None) =
    [Send (BatchDeleteMany [''marlin_jobinputs_v2'', ''marlin_errors_v2'', ''marlin_tasks_v2'',
            ''marlin_taskinputs_v2'', ''marlin_taskoutputs_v2''] ''(jobId=job1)'' 2 300000),
     Send (BatchDeleteMany [''marlin_jobinputs_v2'', ''marlin_tasks_v2'', ''marlin_taskoutputs_v2'']
            ''(jobId=job1)'' 2 300000),
     Send (BatchDeleteMany [''marlin_tasks_v2''] ''(jobId=job1)'' 2 300000),
     Send (DeleteObject ''marlin_jobs_v2'' ''job1''),
     Callback None]"
  by (simp add: jobDelete_def jobDelete_cb_def jobDelete_entry_def jobDeleteNextBatch_def
      jobDelete_filter_def jobDelete_limit_def jobDelete_timeout_def jobDelete_deleted_def
      example_delete_replies_def example_api_def Let_def)

lemma cb_answer:
  "\<not> jd_invoked st \<Longrightarrow>
   jobDelete_cb api jobId limit timeout st (Inr etags) =
    (let requests = filter (\<lambda>r. \<not> (\<exists>c. (r, c) \<in> set etags \<and> c < limit)) (jd_requests st);
         st' = st\<lparr>jd_requests := requests\<rparr>
     in (st', if \<forall>m\<in>set etags. snd m < limit
              then [Send (DeleteObject (bk_job api) jobId)]
              else [Send (BatchDeleteMany requests (jobDelete_filter jobId) limit timeout)]))"
proof -
  assume n: "\<not> jd_invoked st"
  obtain requests internals_done where
    f: "fold (jobDelete_entry limit) etags (jd_requests st, True) = (requests, internals_done)"
    by (cases "fold (jobDelete_entry limit) etags (jd_requests st, True)")
  from f fold_entry_fst [of limit etags "(jd_requests st, True)"]
  have r: "requests = filter (\<lambda>r. \<not> (\<exists>c. (r, c) \<in> set etags \<and> c < limit)) (jd_requests st)"
    by simp
  from f fold_entry_snd [of limit etags "(jd_requests st, True)"]
  have d: "internals_done = (\<forall>m\<in>set etags. snd m < limit)" by simp
  show ?thesis
    using n by (simp add: jobDelete_cb_def f r d jobDeleteNextBatch_def Let_def)
qed

lemma answered_requests:
  assumes "distinct (map fst etags)"
    and "set (map fst etags) = set requests"
    and "\<forall>m\<in>set etags. snd m \<le> (limit::nat)"
  shows "filter (\<lambda>r. \<not> (\<exists>c. (r, c) \<in> set etags \<and> c < limit)) requests =
         filter (\<lambda>r. (r, limit) \<in> set etags) requests"
proof (rule filter_cong [OF refl])
  fix r assume "r \<in> set requests"
  with assms(2) obtain c where c: "(r, c) \<in> set etags" by force
  show "(\<not> (\<exists>c. (r, c) \<in> set etags \<and> c < limit)) = ((r, limit) \<in> set etags)"
  proof
    assume no: "\<not> (\<exists>c. (r, c) \<in> set etags \<and> c < limit)"
    with c have "\<not> c < limit" by blast
    moreover from assms(3) c have "c \<le> limit" by force
    ultimately have "c = limit" by simp
    with c show "(r, limit) \<in> set etags" by simp
  next
    assume l: "(r, limit) \<in> set etags"
    show "\<not> (\<exists>c. (r, c) \<in> set etags \<and> c < limit)"
    proof
      assume "\<exists>c. (r, c) \<in> set etags \<and> c < limit"
      then obtain c' where c': "(r, c') \<in> set etags" "c' < limit" by blast
      from eq_key_imp_eq_value [OF assms(1) l c'(1)] c'(2) show False by simp
    qed
  qed
qed

lemma all_dropped:
  assumes "distinct (map fst etags)"
    and "set (map fst etags) = set requests"
  shows "(\<forall>m\<in>set etags. snd m < (limit::nat)) =
         (filter (\<lambda>r. \<not> (\<exists>c. (r, c) \<in> set etags \<and> c < limit)) requests = [])"
proof
  assume a: "\<forall>m\<in>set etags. snd m < limit"
  have "\<forall>r\<in>set requests. \<exists>c. (r, c) \<in> set etags \<and> c < limit"
  proof
    fix r assume "r \<in> set requests"
    with assms(2) obtain c where c: "(r, c) \<in> set etags" by force
    with a have "c < limit" by force
    with c show "\<exists>c. (r, c) \<in> set etags \<and> c < limit" by blast
  qed
  then show "filter (\<lambda>r. \<not> (\<exists>c. (r, c) \<in> set etags \<and> c < limit)) requests = []"
    by (simp add: filter_empty_conv)
next
  assume e: "filter (\<lambda>r. \<not> (\<exists>c. (r, c) \<in> set etags \<and> c < limit)) requests = []"
  show "\<forall>m\<in>set etags. snd m < limit"
  proof
    fix m assume m: "m \<in> set etags"
    obtain b c where bc: "m = (b, c)" by (cases m)
    with m assms(2) have "b \<in> set requests" by force
    with e obtain c' where c': "(b, c') \<in> set etags" "c' < limit"
      by (auto simp: filter_empty_conv)
    from m bc have "(b, c) \<in> set etags" by simp
    from eq_key_imp_eq_value [OF assms(1) this c'(1)] c'(2) bc show "snd m < limit" by simp
  qed
qed

lemma cb_round:
  assumes "\<not> jd_invoked st"
    and "distinct (map fst etags)"
    and "set (map fst etags) = set (jd_requests st)"
    and "\<forall>m\<in>set etags. snd m \<le> limit"
  shows "jobDelete_cb api jobId limit timeout st (Inr etags) =
           (st\<lparr>jd_requests := filter (\<lambda>b. (b, limit) \<in> set etags) (jd_requests st)\<rparr>,
            if filter (\<lambda>b. (b, limit) \<in> set etags) (jd_requests st) = []
            then [Send (DeleteObject (bk_job api) jobId)]
            else [Send (BatchDeleteMany (filter (\<lambda>b. (b, limit) \<in> set etags) (jd_requests st))
                          (jobDelete_filter jobId) limit timeout)])"
proof -
  let ?kept = "filter (\<lambda>b. (b, limit) \<in> set etags) (jd_requests st)"
  have kept: "filter (\<lambda>r. \<not> (\<exists>c. (r, c) \<in> set etags \<and> c < limit)) (jd_requests st) = ?kept"
    by (rule answered_requests [OF assms(2,3,4)])
  have fin: "(\<forall>m\<in>set etags. snd m < limit) = (?kept = [])"
    using all_dropped [OF assms(2,3), of limit] kept by simp
  show ?thesis
    using cb_answer [OF assms(1), of api jobId limit timeout etags, unfolded kept fin]
    by (simp add: Let_def)
qed

lemma kept_iff:
  assumes "distinct (map fst etags)"
    and "set (map fst etags) = set requests"
    and "(b, c) \<in> set etags"
  shows "(b \<in> set (filter (\<lambda>b. (b, limit) \<in> set etags) requests)) = (c = limit)"
proof
  assume "b \<in> set (filter (\<lambda>b. (b, limit) \<in> set etags) requests)"
  then have "(b, limit) \<in> set etags" by simp
  from eq_key_imp_eq_value [OF assms(1) assms(3) this] show "c = limit" .
next
  assume "c = limit"
  moreover from assms(2,3) have "b \<in> set requests" by force
  ultimately show "b \<in> set (filter (\<lambda>b. (b, limit) \<in> set etags) requests)"
    using assms(3) by simp
qed

lemma from_nil:
  "jobDelete_from api jobId limit timeout st [] dr =
     [Send (BatchDeleteMany (jd_requests st) (jobDelete_filter jobId) limit timeout)]"
  by (simp add: jobDelete_from_def jobDeleteNextBatch_def)

lemma from_cons:
  "jobDelete_from api jobId limit timeout st (r # rs) dr =
     Send (BatchDeleteMany (jd_requests st) (jobDelete_filter jobId) limit timeout) #
     jobDelete_run api jobId limit timeout st (r # rs) dr"
  by (simp add: jobDelete_from_def jobDeleteNextBatch_def)

lemma run_error:
  "\<not> jd_invoked st \<Longrightarrow>
   jobDelete_run api jobId limit timeout st (Inl err # rs) dr =
     [Callback (Some (VError (Some err) ''failed to delete job'' []))]"
  by (simp add: jobDelete_cb_def)

lemma run_answer:
  assumes "\<not> jd_invoked st"
    and "answers_requested
           (Send (BatchDeleteMany (jd_requests st) (jobDelete_filter jobId) limit timeout))
           (Inr etags)"
  shows "jobDelete_run api jobId limit timeout st (Inr etags # rs) dr =
    (if filter (\<lambda>b. (b, limit) \<in> set etags) (jd_requests st) = []
     then Send (DeleteObject (bk_job api) jobId) # jobDelete_end dr
     else jobDelete_from api jobId limit timeout
            (st\<lparr>jd_requests := filter (\<lambda>b. (b, limit) \<in> set etags) (jd_requests st)\<rparr>) rs dr)"
proof -
  from assms(2) have a: "distinct (map fst etags)" "set (map fst etags) = set (jd_requests st)"
    "\<forall>m\<in>set etags. snd m \<le> limit"
    by (simp_all add: answers_requested_def list_all_iff)
  note cb = cb_round [OF assms(1) a, of api jobId timeout]
  show ?thesis
    using assms(1)
    by (simp add: cb jobDelete_from_def jobDeleteNextBatch_def jobDelete_end_def
        jobDelete_deleted_def split: option.splits)
qed

lemma contract_cons:
  "store_contract (x # T) (r # rs) = (answers_requested x r \<and> store_contract T rs)"
  by (simp add: store_contract_def)

lemma end_no_send: "Send x \<notin> set (jobDelete_end dr)"
  by (simp add: jobDelete_end_def split: option.splits)

lemma from_cases:
  assumes "\<not> jd_invoked st"
    and "store_contract (jobDelete_from api jobId limit timeout st (r # rs) dr) (r # rs)"
  obtains
    (error) err where "r = Inl err"
      "jobDelete_from api jobId limit timeout st (r # rs) dr =
         [Send (BatchDeleteMany (jd_requests st) (jobDelete_filter jobId) limit timeout),
          Callback (Some (VError (Some err) ''failed to delete job'' []))]"
  | (finished) etags where "r = Inr etags"
      "distinct (map fst etags)" "set (map fst etags) = set (jd_requests st)"
      "\<forall>m\<in>set etags. snd m \<le> limit"
      "filter (\<lambda>b. (b, limit) \<in> set etags) (jd_requests st) = []"
      "jobDelete_from api jobId limit timeout st (r # rs) dr =
         Send (BatchDeleteMany (jd_requests st) (jobDelete_filter jobId) limit timeout) #
         Send (DeleteObject (bk_job api) jobId) # jobDelete_end dr"
  | (more) etags where "r = Inr etags"
      "distinct (map fst etags)" "set (map fst etags) = set (jd_requests st)"
      "\<forall>m\<in>set etags. snd m \<le> limit"
      "filter (\<lambda>b. (b, limit) \<in> set etags) (jd_requests st) \<noteq> []"
      "jobDelete_from api jobId limit timeout st (r # rs) dr =
         Send (BatchDeleteMany (jd_requests st) (jobDelete_filter jobId) limit timeout) #
         jobDelete_from api jobId limit timeout
           (st\<lparr>jd_requests := filter (\<lambda>b. (b, limit) \<in> set etags) (jd_requests st)\<rparr>) rs dr"
      "store_contract
         (jobDelete_from api jobId limit timeout
           (st\<lparr>jd_requests := filter (\<lambda>b. (b, limit) \<in> set etags) (jd_requests st)\<rparr>) rs dr)
         rs"
proof (cases r)
  case (Inl err)
  show ?thesis
    by (rule error [of err])
       (simp_all add: Inl from_cons run_error [OF assms(1)] del: jobDelete_run.simps)
next
  case (Inr etags)
  from assms(2) have ans: "answers_requested
      (Send (BatchDeleteMany (jd_requests st) (jobDelete_filter jobId) limit timeout)) (Inr etags)"
    and rest: "store_contract (jobDelete_run api jobId limit timeout st (Inr etags # rs) dr) rs"
    unfolding Inr from_cons contract_cons by (simp_all del: jobDelete_run.simps)
  from ans have a: "distinct (map fst etags)" "set (map fst etags) = set (jd_requests st)"
    "\<forall>m\<in>set etags. snd m \<le> limit"
    by (simp_all add: answers_requested_def list_all_iff)
  note run = run_answer [OF assms(1) ans, of api rs dr]
  show ?thesis
  proof (cases "filter (\<lambda>b. (b, limit) \<in> set etags) (jd_requests st) = []")
    case True
    show ?thesis
      by (rule finished [OF Inr a True])
         (simp add: Inr from_cons run True del: jobDelete_run.simps)
  next
    case False
    show ?thesis
    proof (rule more [OF Inr a False])
      show "jobDelete_from api jobId limit timeout st (r # rs) dr =
         Send (BatchDeleteMany (jd_requests st) (jobDelete_filter jobId) limit timeout) #
         jobDelete_from api jobId limit timeout
           (st\<lparr>jd_requests := filter (\<lambda>b. (b, limit) \<in> set etags) (jd_requests st)\<rparr>) rs dr"
        by (simp add: Inr from_cons run False del: jobDelete_run.simps)
      from rest show "store_contract
         (jobDelete_from api jobId limit timeout
           (st\<lparr>jd_requests := filter (\<lambda>b. (b, limit) \<in> set etags) (jd_requests st)\<rparr>) rs dr)
         rs"
        by (simp add: run False del: jobDelete_run.simps)
    qed
  qed
qed

text \<open>Every batch of a run asks with the job's filter, the limit and the timeout, for
  buckets of the first batch.\<close>

lemma from_batch:
  assumes "\<not> jd_invoked st"
    and "store_contract (jobDelete_from api jobId limit timeout st rs dr) rs"
    and "i < length (jobDelete_from api jobId limit timeout st rs dr)"
    and "jobDelete_from api jobId limit timeout st rs dr ! i = Send (BatchDeleteMany bs f l t)"
  shows "f = jobDelete_filter jobId \<and> l = limit \<and> t = timeout \<and> set bs \<subseteq> set (jd_requests st)"
  using assms
proof (induction rs arbitrary: st i)
  case Nil
  then show ?case by (simp add: from_nil)
next
  case (Cons r rs)
  from Cons.prems(1,2) show ?case
  proof (cases rule: from_cases)
    case (error err)
    with Cons.prems(3,4) show ?thesis by (cases i) simp_all
  next
    case (finished etags)
    show ?thesis
    proof (cases i)
      case 0
      with Cons.prems(4) finished(6) show ?thesis by simp
    next
      case (Suc i')
      with Cons.prems(3,4) finished(6)
      have "Send (BatchDeleteMany bs f l t) \<in> set (Send (DeleteObject (bk_job api) jobId) # jobDelete_end dr)"
        by (metis length_Cons Suc_less_eq nth_Cons_Suc nth_mem)
      then show ?thesis by (simp add: end_no_send)
    qed
  next
    case (more etags)
    show ?thesis
    proof (cases i)
      case 0
      with Cons.prems(4) more(6) show ?thesis by simp
    next
      case (Suc i')
      let ?st = "st\<lparr>jd_requests := filter (\<lambda>b. (b, limit) \<in> set etags) (jd_requests st)\<rparr>"
      from Cons.prems(1) have n: "\<not> jd_invoked ?st" by simp
      from Cons.prems(3,4) Suc more(6)
      have "i' < length (jobDelete_from api jobId limit timeout ?st rs dr)"
        "jobDelete_from api jobId limit timeout ?st rs dr ! i' = Send (BatchDeleteMany bs f l t)"
        by simp_all
      from Cons.IH [OF n more(7) this] show ?thesis by auto
    qed
  qed
qed

lemma from_first:
  "jobDelete_from api jobId limit timeout st rs dr ! 0 =
     Send (BatchDeleteMany (jd_requests st) (jobDelete_filter jobId) limit timeout)
   \<and> 0 < length (jobDelete_from api jobId limit timeout st rs dr)"
  by (simp add: jobDelete_from_def jobDeleteNextBatch_def)

lemma after_delete:
  assumes "i < length (x # Send (DeleteObject b0 k0) # jobDelete_end dr)"
    and "(x # Send (DeleteObject b0 k0) # jobDelete_end dr) ! i = Send y"
    and "i \<noteq> 0"
  shows "i = 1 \<and> y = DeleteObject b0 k0"
proof (cases i)
  case 0
  with assms(3) show ?thesis by simp
next
  case (Suc i')
  show ?thesis
  proof (cases i')
    case 0
    with Suc assms(2) show ?thesis by simp
  next
    case (Suc i'')
    with \<open>i = Suc i'\<close> assms(1,2) have "Send y \<in> set (jobDelete_end dr)"
      by (metis length_Cons Suc_less_eq nth_Cons_Suc nth_mem)
    then show ?thesis by (simp add: end_no_send)
  qed
qed

text \<open>An answered batch: what is sent next.\<close>

lemma from_next:
  assumes "\<not> jd_invoked st"
    and "store_contract (jobDelete_from api jobId limit timeout st rs dr) rs"
    and "i < length (jobDelete_from api jobId limit timeout st rs dr)"
    and "jobDelete_from api jobId limit timeout st rs dr ! i = Send (BatchDeleteMany bs f l t)"
    and "i < length rs" and "rs ! i = Inr etags"
  shows "Suc i < length (jobDelete_from api jobId limit timeout st rs dr)
     \<and> jobDelete_from api jobId limit timeout st rs dr ! Suc i =
         (if filter (\<lambda>b. (b, limit) \<in> set etags) bs = []
          then Send (DeleteObject (bk_job api) jobId)
          else Send (BatchDeleteMany (filter (\<lambda>b. (b, limit) \<in> set etags) bs)
                  (jobDelete_filter jobId) limit timeout))
     \<and> distinct (map fst etags) \<and> set (map fst etags) = set bs"
  using assms
proof (induction rs arbitrary: st i)
  case Nil
  then show ?case by simp
next
  case (Cons r rs)
  from Cons.prems(1,2) show ?case
  proof (cases rule: from_cases)
    case (error err)
    with Cons.prems(3,4,6) show ?thesis by (cases i) simp_all
  next
    case (finished etags0)
    show ?thesis
    proof (cases i)
      case 0
      with Cons.prems(4,6) finished show ?thesis by simp
    next
      case (Suc i')
      with after_delete [of i _ "bk_job api" jobId dr "BatchDeleteMany bs f l t"]
        Cons.prems(3,4) finished(6)
      show ?thesis by simp
    qed
  next
    case (more etags0)
    let ?st = "st\<lparr>jd_requests := filter (\<lambda>b. (b, limit) \<in> set etags0) (jd_requests st)\<rparr>"
    show ?thesis
    proof (cases i)
      case 0
      with Cons.prems(4,6) more from_first [of api jobId limit timeout ?st rs dr]
      show ?thesis by simp
    next
      case (Suc i')
      from Cons.prems(1) have n: "\<not> jd_invoked ?st" by simp
      from Cons.prems(3,4,5,6) Suc more(6)
      have "i' < length (jobDelete_from api jobId limit timeout ?st rs dr)"
        "jobDelete_from api jobId limit timeout ?st rs dr ! i' = Send (BatchDeleteMany bs f l t)"
        "i' < length rs" "rs ! i' = Inr etags"
        by simp_all
      from Cons.IH [OF n more(7) this] show ?thesis by (simp add: more(6) Suc)
    qed
  qed
qed

text \<open>A refused batch: the caller's callback, and nothing more.\<close>

lemma from_error:
  assumes "\<not> jd_invoked st"
    and "store_contract (jobDelete_from api jobId limit timeout st rs dr) rs"
    and "i < length (jobDelete_from api jobId limit timeout st rs dr)"
    and "jobDelete_from api jobId limit timeout st rs dr ! i = Send (BatchDeleteMany bs f l t)"
    and "i < length rs" and "rs ! i = Inl err"
  shows "drop (Suc i) (jobDelete_from api jobId limit timeout st rs dr) =
     [Callback (Some (VError (Some err) ''failed to delete job'' []))]"
  using assms
proof (induction rs arbitrary: st i)
  case Nil
  then show ?case by simp
next
  case (Cons r rs)
  from Cons.prems(1,2) show ?case
  proof (cases rule: from_cases)
    case (error err0)
    with Cons.prems(3,4,6) show ?thesis by (cases i) simp_all
  next
    case (finished etags0)
    show ?thesis
    proof (cases i)
      case 0
      with Cons.prems(6) finished show ?thesis by simp
    next
      case (Suc i')
      with after_delete [of i _ "bk_job api" jobId dr "BatchDeleteMany bs f l t"]
        Cons.prems(3,4) finished(6)
      show ?thesis by simp
    qed
  next
    case (more etags0)
    let ?st = "st\<lparr>jd_requests := filter (\<lambda>b. (b, limit) \<in> set etags0) (jd_requests st)\<rparr>"
    show ?thesis
    proof (cases i)
      case 0
      with Cons.prems(6) more show ?thesis by simp
    next
      case (Suc i')
      from Cons.prems(1) have n: "\<not> jd_invoked ?st" by simp
      from Cons.prems(3,4,5,6) Suc more(6)
      have "i' < length (jobDelete_from api jobId limit timeout ?st rs dr)"
        "jobDelete_from api jobId limit timeout ?st rs dr ! i' = Send (BatchDeleteMany bs f l t)"
        "i' < length rs" "rs ! i' = Inl err"
        by simp_all
      from Cons.IH [OF n more(7) this] show ?thesis by (simp add: more(6) Suc)
    qed
  qed
qed

text \<open>A batch that is not answered is the last thing of the run.\<close>

lemma from_outstanding:
  assumes "\<not> jd_invoked st"
    and "store_contract (jobDelete_from api jobId limit timeout st rs dr) rs"
    and "i < length (jobDelete_from api jobId limit timeout st rs dr)"
    and "jobDelete_from api jobId limit timeout st rs dr ! i = Send (BatchDeleteMany bs f l t)"
    and "length rs \<le> i"
  shows "Suc i = length (jobDelete_from api jobId limit timeout st rs dr)"
  using assms
proof (induction rs arbitrary: st i)
  case Nil
  then show ?case by (simp add: from_nil)
next
  case (Cons r rs)
  from Cons.prems(5) obtain i' where i: "i = Suc i'" "length rs \<le> i'" by (cases i) simp_all
  from Cons.prems(1,2) show ?case
  proof (cases rule: from_cases)
    case (error err0)
    with Cons.prems(3,4) i show ?thesis by (cases i') simp_all
  next
    case (finished etags0)
    with after_delete [of i _ "bk_job api" jobId dr "BatchDeleteMany bs f l t"]
      Cons.prems(3,4) i
    show ?thesis by simp
  next
    case (more etags0)
    let ?st = "st\<lparr>jd_requests := filter (\<lambda>b. (b, limit) \<in> set etags0) (jd_requests st)\<rparr>"
    from Cons.prems(1) have n: "\<not> jd_invoked ?st" by simp
    from Cons.prems(3,4) i more(6)
    have "i' < length (jobDelete_from api jobId limit timeout ?st rs dr)"
      "jobDelete_from api jobId limit timeout ?st rs dr ! i' = Send (BatchDeleteMany bs f l t)"
      by simp_all
    from Cons.IH [OF n more(7) this i(2)] show ?thesis by (simp add: more(6) i)
  qed
qed

text \<open>A bucket answered with a count under the limit is in no later batch.\<close>

lemma from_dropped:
  assumes "\<not> jd_invoked st"
    and "store_contract (jobDelete_from api jobId limit timeout st rs dr) rs"
    and "i < j" and "j < length (jobDelete_from api jobId limit timeout st rs dr)"
    and "jobDelete_from api jobId limit timeout st rs dr ! i = Send (BatchDeleteMany bs f l t)"
    and "jobDelete_from api jobId limit timeout st rs dr ! j = Send (BatchDeleteMany bs' f' l' t')"
    and "i < length rs" and "rs ! i = Inr etags"
    and "(b, c) \<in> set etags" and "c < limit"
  shows "b \<notin> set bs'"
  using assms
proof (induction rs arbitrary: st i j)
  case Nil
  then show ?case by simp
next
  case (Cons r rs)
  from Cons.prems(3) obtain j' where j: "j = Suc j'" "i \<le> j'" by (cases j) simp_all
  from Cons.prems(1,2) show ?case
  proof (cases rule: from_cases)
    case (error err0)
    with Cons.prems(4,6) j show ?thesis by (cases j') simp_all
  next
    case (finished etags0)
    with after_delete [of j _ "bk_job api" jobId dr "BatchDeleteMany bs' f' l' t'"]
      Cons.prems(4,6) j
    show ?thesis by simp
  next
    case (more etags0)
    let ?st = "st\<lparr>jd_requests := filter (\<lambda>b. (b, limit) \<in> set etags0) (jd_requests st)\<rparr>"
    from Cons.prems(1) have n: "\<not> jd_invoked ?st" by simp
    from Cons.prems(4,6) j more(6)
    have later: "j' < length (jobDelete_from api jobId limit timeout ?st rs dr)"
      "jobDelete_from api jobId limit timeout ?st rs dr ! j' = Send (BatchDeleteMany bs' f' l' t')"
      by simp_all
    show ?thesis
    proof (cases i)
      case 0
      with Cons.prems(8) more(1) have e: "etags0 = etags" by simp
      from from_batch [OF n more(7) later]
      have "set bs' \<subseteq> set (filter (\<lambda>b. (b, limit) \<in> set etags0) (jd_requests st))" by simp
      moreover have "b \<notin> set (filter (\<lambda>b. (b, limit) \<in> set etags0) (jd_requests st))"
      proof
        assume "b \<in> set (filter (\<lambda>b. (b, limit) \<in> set etags0) (jd_requests st))"
        then have "(b, limit) \<in> set etags" by (simp add: e)
        from eq_key_imp_eq_value [OF more(2) [unfolded e] Cons.prems(9) this] Cons.prems(10)
        show False by simp
      qed
      ultimately show ?thesis by blast
    next
      case (Suc i')
      with Cons.prems(3,5,7,8) j more(6)
      have "i' < j'"
        "jobDelete_from api jobId limit timeout ?st rs dr ! i' = Send (BatchDeleteMany bs f l t)"
        "i' < length rs" "rs ! i' = Inr etags"
        by simp_all
      from Cons.IH [OF n more(7) this(1) later(1) this(2) later(2) this(3,4) Cons.prems(9,10)]
      show ?thesis .
    qed
  qed
qed

text \<open>The delete of the job record: after batches only, each bucket of the first batch
  answered with a count under the limit before, and only the callback after it.\<close>

lemma from_delete:
  assumes "\<not> jd_invoked st"
    and "store_contract (jobDelete_from api jobId limit timeout st rs dr) rs"
    and "i < length (jobDelete_from api jobId limit timeout st rs dr)"
    and "jobDelete_from api jobId limit timeout st rs dr ! i = Send (DeleteObject b k)"
  shows "b = bk_job api \<and> k = jobId \<and> 0 < i
     \<and> (\<forall>j<i. \<exists>bs. jobDelete_from api jobId limit timeout st rs dr ! j =
            Send (BatchDeleteMany bs (jobDelete_filter jobId) limit timeout))
     \<and> (\<forall>bucket\<in>set (jd_requests st). \<exists>j<i. \<exists>etags c.
            j < length rs \<and> rs ! j = Inr etags \<and> (bucket, c) \<in> set etags \<and> c < limit)
     \<and> drop (Suc i) (jobDelete_from api jobId limit timeout st rs dr) = jobDelete_end dr"
  using assms
proof (induction rs arbitrary: st i)
  case Nil
  then show ?case by (simp add: from_nil)
next
  case (Cons r rs)
  have dropped_now: "\<exists>c. (bucket, c) \<in> set etags0 \<and> c < limit"
    if "distinct (map fst etags0)" "set (map fst etags0) = set (jd_requests st)"
      "\<forall>m\<in>set etags0. snd m \<le> limit" "bucket \<in> set (jd_requests st)"
      "bucket \<notin> set (filter (\<lambda>b. (b, limit) \<in> set etags0) (jd_requests st))"
    for etags0 bucket
  proof -
    from that(2,4) obtain c where c: "(bucket, c) \<in> set etags0" by force
    with that(3) have "c \<le> limit" by force
    moreover from that(4,5) have "(bucket, limit) \<notin> set etags0" by simp
    with c have "c \<noteq> limit" by auto
    ultimately show ?thesis using c by auto
  qed
  from Cons.prems(1,2) show ?case
  proof (cases rule: from_cases)
    case (error err0)
    with Cons.prems(3,4) show ?thesis by (cases i) simp_all
  next
    case (finished etags0)
    have i0: "i \<noteq> 0" using Cons.prems(4) finished(6) by (cases i) simp_all
    from after_delete [of i _ "bk_job api" jobId dr "DeleteObject b k"] Cons.prems(3,4)
      finished(6) i0
    have i1: "i = 1" and bk: "b = bk_job api" "k = jobId" by simp_all
    have "\<forall>bucket\<in>set (jd_requests st). \<exists>j<i. \<exists>etags c.
            j < length (r # rs) \<and> (r # rs) ! j = Inr etags \<and> (bucket, c) \<in> set etags \<and> c < limit"
    proof
      fix bucket assume "bucket \<in> set (jd_requests st)"
      with dropped_now [OF finished(2,3,4)] finished(5)
      obtain c where "(bucket, c) \<in> set etags0" "c < limit" by auto
      with finished(1) i1 show "\<exists>j<i. \<exists>etags c.
            j < length (r # rs) \<and> (r # rs) ! j = Inr etags \<and> (bucket, c) \<in> set etags \<and> c < limit"
        by (intro exI [of _ 0]) auto
    qed
    with i1 bk show ?thesis by (simp add: finished(6))
  next
    case (more etags0)
    let ?st = "st\<lparr>jd_requests := filter (\<lambda>b. (b, limit) \<in> set etags0) (jd_requests st)\<rparr>"
    let ?T = "jobDelete_from api jobId limit timeout ?st rs dr"
    from Cons.prems(1) have n: "\<not> jd_invoked ?st" by simp
    from Cons.prems(4) more(6) obtain i' where i: "i = Suc i'" by (cases i) simp_all
    from Cons.prems(3,4) i more(6)
    have "i' < length ?T" "?T ! i' = Send (DeleteObject b k)" by simp_all
    from Cons.IH [OF n more(7) this]
    have ih: "b = bk_job api" "k = jobId" "0 < i'"
      "\<forall>j<i'. \<exists>bs. ?T ! j = Send (BatchDeleteMany bs (jobDelete_filter jobId) limit timeout)"
      "\<forall>bucket\<in>set (jd_requests ?st). \<exists>j<i'. \<exists>etags c.
            j < length rs \<and> rs ! j = Inr etags \<and> (bucket, c) \<in> set etags \<and> c < limit"
      "drop (Suc i') ?T = jobDelete_end dr"
      by simp_all
    have batches: "\<forall>j<i. \<exists>bs. jobDelete_from api jobId limit timeout st (r # rs) dr ! j =
            Send (BatchDeleteMany bs (jobDelete_filter jobId) limit timeout)"
    proof (intro allI impI)
      fix j assume "j < i"
      show "\<exists>bs. jobDelete_from api jobId limit timeout st (r # rs) dr ! j =
            Send (BatchDeleteMany bs (jobDelete_filter jobId) limit timeout)"
      proof (cases j)
        case 0
        then show ?thesis by (simp add: more(6))
      next
        case (Suc j')
        with \<open>j < i\<close> i ih(4) show ?thesis by (simp add: more(6))
      qed
    qed
    have buckets: "\<forall>bucket\<in>set (jd_requests st). \<exists>j<i. \<exists>etags c.
            j < length (r # rs) \<and> (r # rs) ! j = Inr etags \<and> (bucket, c) \<in> set etags \<and> c < limit"
    proof
      fix bucket assume in_st: "bucket \<in> set (jd_requests st)"
      show "\<exists>j<i. \<exists>etags c.
            j < length (r # rs) \<and> (r # rs) ! j = Inr etags \<and> (bucket, c) \<in> set etags \<and> c < limit"
      proof (cases "bucket \<in> set (filter (\<lambda>b. (b, limit) \<in> set etags0) (jd_requests st))")
        case True
        with ih(5) obtain j etags c where "j < i'" "j < length rs" "rs ! j = Inr etags"
          "(bucket, c) \<in> set etags" "c < limit" by auto
        with i show ?thesis by (intro exI [of _ "Suc j"]) auto
      next
        case False
        from dropped_now [OF more(2,3,4) in_st False]
        obtain c where "(bucket, c) \<in> set etags0" "c < limit" by auto
        with more(1) i show ?thesis by (intro exI [of _ 0]) auto
      qed
    qed
    from ih(1,2,6) i batches buckets show ?thesis by (simp add: more(6))
  qed
qed

lemma jobDelete_from_first:
  "jobDelete api jobId lo to replies dr =
     jobDelete_from api jobId (jobDelete_limit lo) (jobDelete_timeout to)
       \<lparr>jd_requests = [bk_jobinput api, bk_error api, bk_task api, bk_taskinput api,
                       bk_taskoutput api],
        jd_invoked = False\<rparr> replies dr"
  by (simp add: jobDelete_def jobDelete_from_def Let_def)

text \<open>
  Claim C2.  Take a whole run of \<open>jobDelete\<close>: \<open>T\<close> is everything it sends
  and calls back with, in order, for the answers \<open>replies\<close> of the store to the
  successive batches and its answer \<open>dr\<close> to the delete of the job record, the
  store answering each batch as its contract says (one count for each bucket requested,
  none above the page limit).  The run starts with the batch for all five child buckets.
  Every batch is a \<open>deleteMany\<close> with the job's filter, the limit and the timeout.
  After a batch answered with counts comes the next batch, for the buckets of this one
  whose count equals the limit, in their order, or, when there is none left, the delete
  of the job record: a bucket stays exactly when its count equals the limit, and a
  bucket answered with a count under the limit is in no later batch of the run.  After
  a batch answered with an error comes the caller's callback with "failed to delete
  job" and nothing else; a batch not yet answered is the last thing of the run.  The
  delete of the job record is sent for the job's key, after batches only, and each of
  the five child buckets has been answered with a count under the limit before; after
  it comes only the caller's callback, with "failed to delete job" if the delete
  failed.  One callback of a batch does this for any state and limit; once the caller's
  callback has been invoked, a later batch answer or delete answer does nothing.
\<close>

theorem jobDelete_cascade:
  assumes "T = jobDelete api jobId lo to replies dr"
    and "limit = jobDelete_limit lo" and "timeout = jobDelete_timeout to"
    and "store_contract T replies"
  shows
   "0 < length T
    \<and> T ! 0 = Send (BatchDeleteMany [bk_jobinput api, bk_error api, bk_task api,
                     bk_taskinput api, bk_taskoutput api] (jobDelete_filter jobId) limit timeout)
    \<and> (\<forall>i bs f l t. i < length T \<and> T ! i = Send (BatchDeleteMany bs f l t) \<longrightarrow>
          f = jobDelete_filter jobId \<and> l = limit \<and> t = timeout
          \<and> (length replies \<le> i \<longrightarrow> Suc i = length T)
          \<and> (\<forall>etags. i < length replies \<and> replies ! i = Inr etags \<longrightarrow>
                Suc i < length T
                \<and> T ! Suc i =
                    (if filter (\<lambda>b. (b, limit) \<in> set etags) bs = []
                     then Send (DeleteObject (bk_job api) jobId)
                     else Send (BatchDeleteMany (filter (\<lambda>b. (b, limit) \<in> set etags) bs)
                             (jobDelete_filter jobId) limit timeout))
                \<and> (\<forall>b c. (b, c) \<in> set etags \<longrightarrow>
                      (b \<in> set (filter (\<lambda>b. (b, limit) \<in> set etags) bs) \<longleftrightarrow> c = limit))
                \<and> (\<forall>b c j bs' f' l' t'.
                      (b, c) \<in> set etags \<and> c < limit \<and> i < j \<and> j < length T
                      \<and> T ! j = Send (BatchDeleteMany bs' f' l' t') \<longrightarrow> b \<notin> set bs'))
          \<and> (\<forall>err. i < length replies \<and> replies ! i = Inl err \<longrightarrow>
                drop (Suc i) T = [Callback (Some (VError (Some err) ''failed to delete job'' []))]))
    \<and> (\<forall>i b k. i < length T \<and> T ! i = Send (DeleteObject b k) \<longrightarrow>
          b = bk_job api \<and> k = jobId \<and> 0 < i
          \<and> (\<forall>j<i. \<exists>bs. T ! j = Send (BatchDeleteMany bs (jobDelete_filter jobId) limit timeout))
          \<and> (\<forall>bucket\<in>set [bk_jobinput api, bk_error api, bk_task api, bk_taskinput api,
                             bk_taskoutput api].
                \<exists>j<i. \<exists>etags c. j < length replies \<and> replies ! j = Inr etags
                   \<and> (bucket, c) \<in> set etags \<and> c < limit)
          \<and> (dr = None \<longrightarrow> drop (Suc i) T = [])
          \<and> (dr = Some None \<longrightarrow> drop (Suc i) T = [Callback None])
          \<and> (\<forall>e. dr = Some (Some e) \<longrightarrow>
                drop (Suc i) T = [Callback (Some (VError (Some e) ''failed to delete job'' []))]))
    \<and> (\<not> jd_invoked st \<and> distinct (map fst etags0) \<and> set (map fst etags0) = set (jd_requests st)
         \<and> (\<forall>m\<in>set etags0. snd m \<le> lim) \<longrightarrow>
         jobDelete_cb api jobId lim tmo st (Inr etags0) =
           (st\<lparr>jd_requests := filter (\<lambda>b. (b, lim) \<in> set etags0) (jd_requests st)\<rparr>,
            if filter (\<lambda>b. (b, lim) \<in> set etags0) (jd_requests st) = []
            then [Send (DeleteObject (bk_job api) jobId)]
            else [Send (BatchDeleteMany (filter (\<lambda>b. (b, lim) \<in> set etags0) (jd_requests st))
                          (jobDelete_filter jobId) lim tmo)]))
    \<and> (\<not> jd_invoked st \<longrightarrow>
         jobDelete_cb api jobId lim tmo st (Inl err0) =
           (st\<lparr>jd_invoked := True\<rparr>,
            [Callback (Some (VError (Some err0) ''failed to delete job'' []))])
         \<and> jobDelete_deleted st (Some err0) =
             (st\<lparr>jd_invoked := True\<rparr>,
              [Callback (Some (VError (Some err0) ''failed to delete job'' []))])
         \<and> jobDelete_deleted st None = (st\<lparr>jd_invoked := True\<rparr>, [Callback None]))
    \<and> jobDelete_cb api jobId lim tmo (st\<lparr>jd_invoked := True\<rparr>) reply =
         (st\<lparr>jd_invoked := True\<rparr>, [])
    \<and> jobDelete_deleted (st\<lparr>jd_invoked := True\<rparr>) err2 = (st\<lparr>jd_invoked := True\<rparr>, [])"
proof -
  let ?st = "\<lparr>jd_requests = [bk_jobinput api, bk_error api, bk_task api, bk_taskinput api,
                       bk_taskoutput api], jd_invoked = False\<rparr>"
  have T: "T = jobDelete_from api jobId limit timeout ?st replies dr"
    unfolding assms(1,2,3) by (rule jobDelete_from_first)
  have n: "\<not> jd_invoked ?st" by simp
  have contract: "store_contract (jobDelete_from api jobId limit timeout ?st replies dr) replies"
    using assms(4) unfolding T .
  have first: "0 < length T"
    "T ! 0 = Send (BatchDeleteMany [bk_jobinput api, bk_error api, bk_task api,
                     bk_taskinput api, bk_taskoutput api] (jobDelete_filter jobId) limit timeout)"
    unfolding T using from_first [of api jobId limit timeout ?st replies dr] by simp_all
  have batches: "f = jobDelete_filter jobId \<and> l = limit \<and> t = timeout
          \<and> (length replies \<le> i \<longrightarrow> Suc i = length T)
          \<and> (\<forall>etags. i < length replies \<and> replies ! i = Inr etags \<longrightarrow>
                Suc i < length T
                \<and> T ! Suc i =
                    (if filter (\<lambda>b. (b, limit) \<in> set etags) bs = []
                     then Send (DeleteObject (bk_job api) jobId)
                     else Send (BatchDeleteMany (filter (\<lambda>b. (b, limit) \<in> set etags) bs)
                             (jobDelete_filter jobId) limit timeout))
                \<and> (\<forall>b c. (b, c) \<in> set etags \<longrightarrow>
                      (b \<in> set (filter (\<lambda>b. (b, limit) \<in> set etags) bs) \<longleftrightarrow> c = limit))
                \<and> (\<forall>b c j bs' f' l' t'.
                      (b, c) \<in> set etags \<and> c < limit \<and> i < j \<and> j < length T
                      \<and> T ! j = Send (BatchDeleteMany bs' f' l' t') \<longrightarrow> b \<notin> set bs'))
          \<and> (\<forall>err. i < length replies \<and> replies ! i = Inl err \<longrightarrow>
                drop (Suc i) T = [Callback (Some (VError (Some err) ''failed to delete job'' []))])"
    if i: "i < length T" and b: "T ! i = Send (BatchDeleteMany bs f l t)" for i bs f l t
  proof (intro conjI allI impI; (elim conjE)?)
    note here = i [unfolded T] b [unfolded T]
    from from_batch [OF n contract here]
    show "f = jobDelete_filter jobId" "l = limit" "t = timeout" by simp_all
    {
      assume "length replies \<le> i"
      from from_outstanding [OF n contract here this] show "Suc i = length T" by (simp add: T)
    }
    {
      fix etags assume a: "i < length replies" "replies ! i = Inr etags"
      note nx = from_next [OF n contract here a]
      from nx show "Suc i < length T" by (simp add: T)
      from nx show "T ! Suc i =
                    (if filter (\<lambda>b. (b, limit) \<in> set etags) bs = []
                     then Send (DeleteObject (bk_job api) jobId)
                     else Send (BatchDeleteMany (filter (\<lambda>b. (b, limit) \<in> set etags) bs)
                             (jobDelete_filter jobId) limit timeout))"
        by (simp add: T)
      {
        fix b c assume "(b, c) \<in> set etags"
        from kept_iff [OF nx [THEN conjunct2, THEN conjunct2, THEN conjunct1]
            nx [THEN conjunct2, THEN conjunct2, THEN conjunct2] this]
        show "(b \<in> set (filter (\<lambda>b. (b, limit) \<in> set etags) bs)) = (c = limit)" .
      }
      {
        fix b c j bs' f' l' t'
        assume d: "(b, c) \<in> set etags" "c < limit" "i < j" "j < length T"
          "T ! j = Send (BatchDeleteMany bs' f' l' t')"
        from from_dropped [OF n contract d(3) d(4) [unfolded T] here(2) d(5) [unfolded T] a d(1,2)]
        show "b \<notin> set bs'" .
      }
    }
    {
      fix err assume a: "i < length replies" "replies ! i = Inl err"
      from from_error [OF n contract here a]
      show "drop (Suc i) T = [Callback (Some (VError (Some err) ''failed to delete job'' []))]"
        by (simp add: T)
    }
  qed
  have deleted: "b = bk_job api \<and> k = jobId \<and> 0 < i
          \<and> (\<forall>j<i. \<exists>bs. T ! j = Send (BatchDeleteMany bs (jobDelete_filter jobId) limit timeout))
          \<and> (\<forall>bucket\<in>set [bk_jobinput api, bk_error api, bk_task api, bk_taskinput api,
                             bk_taskoutput api].
                \<exists>j<i. \<exists>etags c. j < length replies \<and> replies ! j = Inr etags
                   \<and> (bucket, c) \<in> set etags \<and> c < limit)
          \<and> (dr = None \<longrightarrow> drop (Suc i) T = [])
          \<and> (dr = Some None \<longrightarrow> drop (Suc i) T = [Callback None])
          \<and> (\<forall>e. dr = Some (Some e) \<longrightarrow>
                drop (Suc i) T = [Callback (Some (VError (Some e) ''failed to delete job'' []))])"
    if i: "i < length T" and b: "T ! i = Send (DeleteObject b k)" for i b k
  proof -
    note d = from_delete [OF n contract i [unfolded T] b [unfolded T], folded T]
    from d have e: "drop (Suc i) T = jobDelete_end dr" by simp
    have "(dr = None \<longrightarrow> drop (Suc i) T = [])
          \<and> (dr = Some None \<longrightarrow> drop (Suc i) T = [Callback None])
          \<and> (\<forall>e. dr = Some (Some e) \<longrightarrow>
                drop (Suc i) T = [Callback (Some (VError (Some e) ''failed to delete job'' []))])"
      unfolding e by (simp add: jobDelete_end_def)
    with d show ?thesis by simp
  qed
  have round: "jobDelete_cb api jobId lim tmo st (Inr etags0) =
           (st\<lparr>jd_requests := filter (\<lambda>b. (b, lim) \<in> set etags0) (jd_requests st)\<rparr>,
            if filter (\<lambda>b. (b, lim) \<in> set etags0) (jd_requests st) = []
            then [Send (DeleteObject (bk_job api) jobId)]
            else [Send (BatchDeleteMany (filter (\<lambda>b. (b, lim) \<in> set etags0) (jd_requests st))
                          (jobDelete_filter jobId) lim tmo)])"
    if "\<not> jd_invoked st \<and> distinct (map fst etags0) \<and> set (map fst etags0) = set (jd_requests st)
         \<and> (\<forall>m\<in>set etags0. snd m \<le> lim)"
    using that by (intro cb_round) simp_all
  have errs: "jobDelete_cb api jobId lim tmo st (Inl err0) =
           (st\<lparr>jd_invoked := True\<rparr>,
            [Callback (Some (VError (Some err0) ''failed to delete job'' []))])
         \<and> jobDelete_deleted st (Some err0) =
             (st\<lparr>jd_invoked := True\<rparr>,
              [Callback (Some (VError (Some err0) ''failed to delete job'' []))])
         \<and> jobDelete_deleted st None = (st\<lparr>jd_invoked := True\<rparr>, [Callback None])"
    if "\<not> jd_invoked st"
    using that by (simp add: jobDelete_cb_def jobDelete_deleted_def)
  have guard: "jobDelete_cb api jobId lim tmo (st\<lparr>jd_invoked := True\<rparr>) reply =
         (st\<lparr>jd_invoked := True\<rparr>, [])"
    "jobDelete_deleted (st\<lparr>jd_invoked := True\<rparr>) err2 = (st\<lparr>jd_invoked := True\<rparr>, [])"
    by (simp_all add: jobDelete_cb_def jobDelete_deleted_def)
  from first batches deleted round errs guard show ?thesis by blast
qed

lemma example_delete_traced:
  "example_delete_trace =
     jobDelete example_api ''job1'' (Some 2) None example_delete_replies (Some None)"
  by (simp add: example_delete_trace_def example_delete_run)

lemma example_delete_contract: "store_contract example_delete_trace example_delete_replies"
  by (simp add: store_contract_def answers_requested_def example_delete_trace_def
      example_delete_replies_def)

theorem jobDelete_cascade_witness:
  "store_contract
     (jobDelete example_api ''job1'' (Some 2) None example_delete_replies (Some None))
     example_delete_replies
   \<and> example_delete_trace ! Suc 0 =
       Send (BatchDeleteMany [''marlin_jobinputs_v2'', ''marlin_tasks_v2'',
               ''marlin_taskoutputs_v2''] ''(jobId=job1)'' 2 300000)
   \<and> ''marlin_errors_v2'' \<notin> set [''marlin_tasks_v2'']
   \<and> drop (Suc 3) example_delete_trace = [Callback None]"
proof -
  have lim: "(2::nat) = jobDelete_limit (Some 2)" by (simp add: jobDelete_limit_def)
  have tmo: "(300000::nat) = jobDelete_timeout None" by (simp add: jobDelete_timeout_def)
  note inst = jobDelete_cascade [OF example_delete_traced lim tmo example_delete_contract]
  have at0: "0 < length example_delete_trace \<and> example_delete_trace ! 0 =
      Send (BatchDeleteMany [''marlin_jobinputs_v2'', ''marlin_errors_v2'', ''marlin_tasks_v2'',
            ''marlin_taskinputs_v2'', ''marlin_taskoutputs_v2''] ''(jobId=job1)'' 2 300000)"
    by (simp add: example_delete_trace_def)
  note b0 = inst [THEN conjunct2, THEN conjunct2, THEN conjunct1, rule_format, OF at0]
  have ans0: "0 < length example_delete_replies \<and> example_delete_replies ! 0 = Inr example_etags"
    by (simp add: example_delete_replies_def example_etags_def)
  note n0 = b0 [THEN conjunct2, THEN conjunct2, THEN conjunct2, THEN conjunct2, THEN conjunct1,
      rule_format, OF ans0]
  have nxt: "example_delete_trace ! Suc 0 =
       Send (BatchDeleteMany [''marlin_jobinputs_v2'', ''marlin_tasks_v2'',
               ''marlin_taskoutputs_v2''] ''(jobId=job1)'' 2 300000)"
    unfolding n0 [THEN conjunct2, THEN conjunct1]
    by (simp add: example_etags_def jobDelete_filter_def example_api_def)
  have later: "(''marlin_errors_v2'', 0) \<in> set example_etags \<and> (0::nat) < 2 \<and> (0::nat) < 2
      \<and> 2 < length example_delete_trace
      \<and> example_delete_trace ! 2 = Send (BatchDeleteMany [''marlin_tasks_v2''] ''(jobId=job1)'' 2 300000)"
    by (simp add: example_etags_def example_delete_trace_def)
  note gone = n0 [THEN conjunct2, THEN conjunct2, THEN conjunct2, rule_format, OF later]
  have at3: "3 < length example_delete_trace \<and> example_delete_trace ! 3 =
      Send (DeleteObject ''marlin_jobs_v2'' ''job1'')"
    by (simp add: example_delete_trace_def)
  note d3 = inst [THEN conjunct2, THEN conjunct2, THEN conjunct2, THEN conjunct1, rule_format,
      OF at3]
  note fin = d3 [THEN conjunct2, THEN conjunct2, THEN conjunct2, THEN conjunct2, THEN conjunct2,
      THEN conjunct2, THEN conjunct1, rule_format, OF refl]
  note c = example_delete_contract [unfolded example_delete_traced]
  from c nxt gone fin show ?thesis by - (intro conjI, assumption+)
qed

section \<open>Facts about listing jobs\<close>

lemma bob123_is_token: "is_token ''bob123''"
  by (simp add: is_token_def token_chars_def)

lemma bob_drop_is_no_token: "\<not> is_token ''bob; drop''"
  by (simp add: is_token_def token_chars_def)

lemma token_filter_invalid: "\<not> is_token v \<Longrightarrow> token_filter attr (Some v) = token_filter attr None"
  by (simp add: token_filter_def)

lemma filters_owner_invalid:
  "\<not> is_token v \<Longrightarrow>
   jobsList_filters env (options\<lparr>lo_owner := Some v\<rparr>) =
   jobsList_filters env (options\<lparr>lo_owner := None\<rparr>)"
  by (simp add: jobsList_filters_def token_filter_invalid)

lemma filters_owner_valid:
  "is_token v \<Longrightarrow> Equals ''owner'' v \<in> set (jobsList_filters env (options\<lparr>lo_owner := Some v\<rparr>))"
  by (auto simp: jobsList_filters_def token_filter_def is_token_def)

lemma filters_no_owner:
  "Equals ''owner'' v \<notin> set (jobsList_filters env (options\<lparr>lo_owner := None\<rparr>))"
  by (auto simp: jobsList_filters_def token_filter_def nonzero_def
      split: option.splits bool.splits wrasse_option.splits if_splits)

lemma findObjects_model_hits:
  "r \<in> set (findObjects_model at_most at_least rows clauses limit order) \<Longrightarrow>
   r \<in> set rows \<and> list_all (satisfies at_most at_least r) clauses"
  by (auto simp: findObjects_model_def Let_def split: option.splits if_splits
      dest: in_set_takeD)

text \<open>
  Claim C8.  An owner that does not match \<open>/^[\\d\\w-]+$/\<close> is left out of the
  filter: \<open>jobsList\<close> sends the very request it sends without an owner, there is
  no error path, and no owner constraint is among the filters then.  With
  \<open>"bob; drop"\<close> as the only option the filter is \<open>(jobId=*)\<close>, all jobs;
  with \<open>"bob123"\<close> it is \<open>(&(owner=bob123))\<close>.  On the modelled store,
  every record found for an owner that matches the pattern has exactly that owner, so
  the records found for \<open>"bob123"\<close> all have an owner that matches the pattern.
\<close>

theorem jobsList_owner:
  "(\<not> is_token v \<longrightarrow>
      jobsList api env (options\<lparr>lo_owner := Some v\<rparr>) =
      jobsList api env (options\<lparr>lo_owner := None\<rparr>)
      \<and> jobsList_records at_most at_least rows env (options\<lparr>lo_owner := Some v\<rparr>) =
        jobsList_records at_most at_least rows env (options\<lparr>lo_owner := None\<rparr>))
   \<and> Equals ''owner'' w \<notin> set (jobsList_filters env (options\<lparr>lo_owner := None\<rparr>))
   \<and> jobsList api env (no_options\<lparr>lo_owner := Some ''bob; drop''\<rparr>) =
       FindObjects (bk_job api) ''(jobId=*)'' None ''ASC''
   \<and> jobsList api env (no_options\<lparr>lo_owner := Some ''bob123''\<rparr>) =
       FindObjects (bk_job api) ''(&(owner=bob123))'' None ''ASC''
   \<and> (is_token v \<longrightarrow>
        (\<forall>r\<in>set (jobsList_records at_most at_least rows env (options\<lparr>lo_owner := Some v\<rparr>)).
            prop_of (rec_value r) ''owner'' = Some (JStr v)))
   \<and> (\<forall>r\<in>set (jobsList_records at_most at_least rows env (no_options\<lparr>lo_owner := Some ''bob123''\<rparr>)).
         \<exists>s. prop_of (rec_value r) ''owner'' = Some (JStr s) \<and> is_token s)"
proof -
  have valid: "prop_of (rec_value r) ''owner'' = Some (JStr u)"
    if "is_token u" and "r \<in> set (jobsList_records at_most at_least rows env (opts\<lparr>lo_owner := Some u\<rparr>))"
    for u r opts
  proof -
    from that(2) have "list_all (satisfies at_most at_least r) (jobsList_query env (opts\<lparr>lo_owner := Some u\<rparr>))"
      unfolding jobsList_records_def by (blast dest: findObjects_model_hits)
    moreover from filters_owner_valid [OF that(1), of env opts]
    have "Equals ''owner'' u \<in> set (jobsList_query env (opts\<lparr>lo_owner := Some u\<rparr>))"
      by (auto simp: jobsList_query_def Let_def)
    ultimately have "satisfies at_most at_least r (Equals ''owner'' u)"
      by (auto simp: list_all_iff)
    then show ?thesis by (simp add: attr_of_def)
  qed
  have invalid: "jobsList api env (options\<lparr>lo_owner := Some v\<rparr>) =
      jobsList api env (options\<lparr>lo_owner := None\<rparr>)
      \<and> jobsList_records at_most at_least rows env (options\<lparr>lo_owner := Some v\<rparr>) =
        jobsList_records at_most at_least rows env (options\<lparr>lo_owner := None\<rparr>)"
    if "\<not> is_token v"
    using filters_owner_invalid [OF that, of env options]
    by (simp add: jobsList_def jobsList_filter_def jobsList_records_def jobsList_query_def
        jobsList_marker_def)
  have drop: "jobsList api env (no_options\<lparr>lo_owner := Some ''bob; drop''\<rparr>) =
       FindObjects (bk_job api) ''(jobId=*)'' None ''ASC''"
    by (simp add: jobsList_def jobsList_filter_def jobsList_filters_def jobsList_marker_def
        token_filter_def nonzero_def no_options_def bob_drop_is_no_token)
  have bob: "jobsList api env (no_options\<lparr>lo_owner := Some ''bob123''\<rparr>) =
       FindObjects (bk_job api) ''(&(owner=bob123))'' None ''ASC''"
    by (simp add: jobsList_def jobsList_filter_def jobsList_filters_def jobsList_marker_def
        token_filter_def nonzero_def no_options_def bob123_is_token)
  show ?thesis
    using invalid drop bob valid [of v _ options] valid [OF bob123_is_token, of _ no_options]
      bob123_is_token filters_no_owner [of w env options]
    by blast
qed

lemma example_list_run:
  "jobsList_records never never example_rows example_env (no_options\<lparr>lo_owner := Some ''bob123''\<rparr>)
     = [example_job, example_piped_job]"
  by (simp add: jobsList_records_def jobsList_query_def jobsList_filters_def jobsList_marker_def
      token_filter_def nonzero_def no_options_def bob123_is_token findObjects_model_def
      attr_of_def prop_of_def example_rows_def example_odd_job_def example_piped_job_def
      example_job_def Let_def)

theorem jobsList_owner_witness:
  "\<not> is_token ''bob; drop''
   \<and> jobsList example_api example_env (no_options\<lparr>lo_owner := Some ''bob; drop''\<rparr>) =
       jobsList example_api example_env (no_options\<lparr>lo_owner := None\<rparr>)
   \<and> is_token ''bob123''
   \<and> example_job \<in> set (jobsList_records never never example_rows example_env
                           (no_options\<lparr>lo_owner := Some ''bob123''\<rparr>))
   \<and> prop_of (rec_value example_job) ''owner'' = Some (JStr ''bob123'')"
proof -
  note inst = jobsList_owner [where api = example_api and env = example_env
      and options = no_options and rows = example_rows and at_most = never and at_least = never]
  note dropped = inst [where v = "''bob; drop''", THEN conjunct1, rule_format,
      OF bob_drop_is_no_token, THEN conjunct1]
  have listed: "example_job \<in> set (jobsList_records never never example_rows example_env
                           (no_options\<lparr>lo_owner := Some ''bob123''\<rparr>))"
    by (simp add: example_list_run)
  note owned = inst [where v = "''bob123''", THEN conjunct2, THEN conjunct2, THEN conjunct2,
      THEN conjunct2, THEN conjunct1, rule_format, OF bob123_is_token listed]
  from bob_drop_is_no_token dropped bob123_is_token listed owned show ?thesis
    by - (intro conjI, assumption+)
qed

section \<open>Facts about the lackey\<close>

lemma mazParentRequest_eq:
  "mazParentRequest s attempt d =
    (if s = Liveness
     then d\<lparr>mazLivenessPending := None, next_uuid := next_uuid d + 1,
            mazClientRequests := mazClientRequests d @
              [(next_uuid d, \<lparr>cr_opname = site_opname s, cr_attempt = attempt, cr_site = s\<rparr>)],
            wire := wire d @ [site_request s]\<rparr>
     else d\<lparr>next_uuid := next_uuid d + 1,
            mazClientRequests := mazClientRequests d @
              [(next_uuid d, \<lparr>cr_opname = site_opname s, cr_attempt = attempt, cr_site = s\<rparr>)],
            wire := wire d @ [site_request s]\<rparr>)"
  by (cases s) (simp_all add: mazParentRequest_def makerequest_def Let_def)





lemma example_running_reached: "run example_running lackey_start = example_running_state"
  by code_simp

lemma example_race_wire:
  "wire (run example_race lackey_start) =
     [HttpGet ''/my/jobs/task/task?wait=true'',
      HttpPost ''/my/jobs/task/commit'' (BatchArg ''/bob123/stor/a'' 3),
      HttpPost ''/my/jobs/task/commit'' (ReportArg None None),
      HttpGet ''/my/jobs/task/task?wait=true'']"
  by code_simp



















lemma example_reporting_wire:
  "wire (run example_reporting lackey_start) =
     [HttpGet ''/my/jobs/task/task?wait=true'',
      HttpPost ''/my/jobs/task/commit'' (ReportArg None None)]"
  by code_simp



text \<open>
  The liveness tick.  \<open>mazLivenessPending\<close> is set just before
  \<open>mazParentRequest\<close> is called and cleared by \<open>makerequest\<close>, which
  \<open>mazParentRequest\<close> calls before it returns.  So the flag is clear again when
  the tick returns, whether or not the request has been answered, and a tick that finds
  it clear always sends a request.
\<close>

lemma tick_sends:
  "mazLivenessPending d = None \<Longrightarrow>
   mazTaskLivenessTick now d =
     d\<lparr>mazLivenessPending := None, next_uuid := next_uuid d + 1,
       mazClientRequests := mazClientRequests d @
         [(next_uuid d, \<lparr>cr_opname = ''POST /my/jobs/task/live'', cr_attempt = 1,
                          cr_site = Liveness\<rparr>)],
       wire := wire d @ [HttpPost ''/my/jobs/task/live'' NoBody]\<rparr>"
  by (simp add: mazTaskLivenessTick_def mazParentRequest_eq)

lemma tick_leaves_flag_clear:
  "mazLivenessPending d = None \<Longrightarrow> mazLivenessPending (mazTaskLivenessTick now d) = None"
  by (simp add: tick_sends)

lemma tick_adds_in_flight:
  "mazLivenessPending d = None \<Longrightarrow>
   liveness_in_flight (mazTaskLivenessTick now d) = liveness_in_flight d + 1"
  by (simp add: tick_sends liveness_in_flight_def)

text \<open>
  Claim C6.  The claim asks that a tick be skipped while the previous heartbeat has not
  been answered.  Here a task is running, the interval fires at 5000 and at 10000, and
  the parent answers neither request in between: after the first tick the flag is clear
  and one heartbeat is in flight; the second tick sends another, so two are in flight.
\<close>

theorem liveness_ticks_overlap:
  "liveness_in_flight (run example_running lackey_start) = 0
   \<and> mazLivenessPending (run (example_running @ [Tick 5000]) lackey_start) = None
   \<and> liveness_in_flight (run (example_running @ [Tick 5000]) lackey_start) = 1
   \<and> liveness_in_flight (run (example_running @ [Tick 5000, Tick 10000]) lackey_start) = 2
   \<and> wire (run (example_running @ [Tick 5000, Tick 10000]) lackey_start) =
       [HttpGet ''/my/jobs/task/task?wait=true'',
        HttpPost ''/my/jobs/task/live'' NoBody,
        HttpPost ''/my/jobs/task/live'' NoBody]"
  by code_simp

end
